theory Spec2Isabelle
  imports Complex_Main
begin

section \<open>JavaScript numbers\<close>

text \<open>
  A JavaScript \<^verbatim>\<open>number\<close> is modelled as a finite rational or one of the three special
  values of IEEE arithmetic. Finite arithmetic is exact (the rounding of doubles is not
  modelled), and the two zeros are identified: a zero divisor behaves as \<^verbatim>\<open>+0\<close>. What
  the code does at a zero divisor (\<^verbatim>\<open>Infinity\<close>, \<^verbatim>\<open>NaN\<close>) is a value of the model, not
  an unspecified term. A product or quotient of the model can differ from the code's
  double in the last place, and \<^verbatim>\<open>Math.round\<close> can then differ by one (the code's
  \<^verbatim>\<open>1024 / (2048 / 961)\<close> is just below \<open>480.5\<close>, the model's is \<open>961 / 2\<close>). The
  statements below therefore either evaluate the code at inputs for which every
  intermediate value is exact in doubles, or use only how the operations are composed,
  membership in the lattice, and values that are not finite.
\<close>

datatype jsnum = Fin rat | PInf | NInf | NaN

fun js_neg :: "jsnum \<Rightarrow> jsnum" where
  "js_neg (Fin a) = Fin (- a)"
| "js_neg PInf = NInf"
| "js_neg NInf = PInf"
| "js_neg NaN = NaN"

fun js_add :: "jsnum \<Rightarrow> jsnum \<Rightarrow> jsnum" where
  "js_add (Fin a) (Fin b) = Fin (a + b)"
| "js_add NaN _ = NaN"
| "js_add _ NaN = NaN"
| "js_add PInf NInf = NaN"
| "js_add NInf PInf = NaN"
| "js_add PInf _ = PInf"
| "js_add NInf _ = NInf"
| "js_add (Fin a) PInf = PInf"
| "js_add (Fin a) NInf = NInf"

definition js_sub :: "jsnum \<Rightarrow> jsnum \<Rightarrow> jsnum" where
  "js_sub a b = js_add a (js_neg b)"

text \<open>The sign of a value that is not \<^verbatim>\<open>NaN\<close>: \<open>True\<close> for negative values.\<close>

fun js_negative :: "jsnum \<Rightarrow> bool" where
  "js_negative (Fin a) = (a < 0)"
| "js_negative NInf = True"
| "js_negative _ = False"

fun js_mul :: "jsnum \<Rightarrow> jsnum \<Rightarrow> jsnum" where
  "js_mul (Fin a) (Fin b) = Fin (a * b)"
| "js_mul NaN _ = NaN"
| "js_mul _ NaN = NaN"
| "js_mul a b =
     (if a = Fin 0 \<or> b = Fin 0 then NaN
      else if js_negative a = js_negative b then PInf else NInf)"

fun js_div :: "jsnum \<Rightarrow> jsnum \<Rightarrow> jsnum" where
  "js_div NaN _ = NaN"
| "js_div _ NaN = NaN"
| "js_div (Fin a) (Fin b) =
     (if b = 0 then (if a = 0 then NaN else if 0 < a then PInf else NInf)
      else Fin (a / b))"
| "js_div (Fin a) _ = Fin 0"
| "js_div a (Fin b) = (if js_negative a = (b < 0) then PInf else NInf)"
| "js_div _ _ = NaN"

fun js_abs :: "jsnum \<Rightarrow> jsnum" where
  "js_abs (Fin a) = Fin \<bar>a\<bar>"
| "js_abs PInf = PInf"
| "js_abs NInf = PInf"
| "js_abs NaN = NaN"

text \<open>The comparison \<^verbatim>\<open><\<close>: false as soon as one side is \<^verbatim>\<open>NaN\<close>.\<close>

fun js_lt :: "jsnum \<Rightarrow> jsnum \<Rightarrow> bool" where
  "js_lt (Fin a) (Fin b) = (a < b)"
| "js_lt NaN _ = False"
| "js_lt _ NaN = False"
| "js_lt NInf b = (b \<noteq> NInf)"
| "js_lt a PInf = (a \<noteq> PInf)"
| "js_lt _ _ = False"

text \<open>\<^verbatim>\<open>Math.round\<close> rounds to the nearest integer, a half towards \<open>+\<infinity>\<close>.\<close>

fun js_round :: "jsnum \<Rightarrow> jsnum" where
  "js_round (Fin a) = Fin (of_int \<lfloor>a + 1 / 2\<rfloor>)"
| "js_round v = v"

fun js_min :: "jsnum \<Rightarrow> jsnum \<Rightarrow> jsnum" where
  "js_min NaN _ = NaN"
| "js_min _ NaN = NaN"
| "js_min a b = (if js_lt b a then b else a)"

definition of_n :: "nat \<Rightarrow> jsnum" where
  "of_n n = Fin (of_nat n)"

text \<open>Truthiness of a number (\<^verbatim>\<open>!n\<close> is true of \<^verbatim>\<open>0\<close> and \<^verbatim>\<open>NaN\<close>).\<close>

fun js_truthy :: "jsnum \<Rightarrow> bool" where
  "js_truthy (Fin a) = (a \<noteq> 0)"
| "js_truthy NaN = False"
| "js_truthy _ = True"

section \<open>Exceptions\<close>

text \<open>
  A thrown value is an \<^verbatim>\<open>Error\<close> carrying its message, or some other value (the
  handlers test \<^verbatim>\<open>instanceof Error\<close>). A function that can throw returns
  \<open>exn + 'a\<close>, \<open>Inl\<close> the thrown value.
\<close>

datatype exn = Error string | NonError

section \<open>The dimension snapper (edit route)\<close>

record dims =
  width :: jsnum
  height :: jsnum

definition VALID_SIZES :: "jsnum list" where
  "VALID_SIZES = [Fin 64, Fin 128, Fin 192, Fin 256, Fin 320, Fin 384, Fin 448, Fin 512,
     Fin 576, Fin 640, Fin 704, Fin 768, Fin 832, Fin 896, Fin 960, Fin 1024]"

text \<open>
  \<^verbatim>\<open>Array.prototype.reduce\<close> without an initial value: the first element starts the
  accumulator; on an empty array it throws a \<^verbatim>\<open>TypeError\<close>.
\<close>

fun reduce :: "('a \<Rightarrow> 'a \<Rightarrow> 'a) \<Rightarrow> 'a list \<Rightarrow> exn + 'a" where
  "reduce f [] = Inl (Error ''Reduce of empty array with no initial value'')"
| "reduce f (x # xs) = Inr (foldl f x xs)"

text \<open>
  The callback of the three reductions of \<^verbatim>\<open>getNearestValidSize\<close>, for the target \<open>t\<close>:
  \<^verbatim>\<open>(prev, curr) => Math.abs(curr - t) < Math.abs(prev - t) ? curr : prev\<close>.
\<close>

definition closer :: "jsnum \<Rightarrow> jsnum \<Rightarrow> jsnum \<Rightarrow> jsnum" where
  "closer t prev cur =
     (if js_lt (js_abs (js_sub cur t)) (js_abs (js_sub prev t)) then cur else prev)"

definition getNearestValidSize :: "jsnum \<Rightarrow> jsnum \<Rightarrow> exn + dims" where
  "getNearestValidSize w h =
     (case reduce (closer w) VALID_SIZES of
        Inl e \<Rightarrow> Inl e
      | Inr nearestWidth \<Rightarrow>
          let aspectRatio = js_div h w;
              scaledHeight = js_round (js_mul nearestWidth aspectRatio)
          in (case reduce (closer scaledHeight) VALID_SIZES of
                Inl e \<Rightarrow> Inl e
              | Inr nearestHeight \<Rightarrow>
                  let heightBasedWidth = js_round (js_div nearestHeight aspectRatio)
                  in (case reduce (closer heightBasedWidth) VALID_SIZES of
                        Inl e \<Rightarrow> Inl e
                      | Inr nearestWidthFromHeight \<Rightarrow>
                          let widthFirstError =
                                js_abs (js_sub (js_div scaledHeight nearestWidth) aspectRatio);
                              heightFirstError =
                                js_abs (js_sub (js_div nearestHeight nearestWidthFromHeight)
                                  aspectRatio)
                          in Inr (if js_lt widthFirstError heightFirstError
                                  then \<lparr>width = nearestWidth, height = nearestHeight\<rparr>
                                  else \<lparr>width = nearestWidthFromHeight,
                                         height = nearestHeight\<rparr>))))"

text \<open>
  The intermediate constants of \<^verbatim>\<open>getNearestValidSize\<close>, one definition for each
  \<^verbatim>\<open>const\<close> of the source, so that statements can name them. \<open>nearest t\<close> is the value
  of the reduction over the sixteen sizes for the target \<open>t\<close>.
\<close>

definition nearest :: "jsnum \<Rightarrow> jsnum" where
  "nearest t = foldl (closer t) (Fin 64) [Fin 128, Fin 192, Fin 256, Fin 320, Fin 384,
     Fin 448, Fin 512, Fin 576, Fin 640, Fin 704, Fin 768, Fin 832, Fin 896, Fin 960,
     Fin 1024]"

definition nearestWidth :: "jsnum \<Rightarrow> jsnum" where
  "nearestWidth w = nearest w"

definition aspectRatio :: "jsnum \<Rightarrow> jsnum \<Rightarrow> jsnum" where
  "aspectRatio w h = js_div h w"

definition scaledHeight :: "jsnum \<Rightarrow> jsnum \<Rightarrow> jsnum" where
  "scaledHeight w h = js_round (js_mul (nearestWidth w) (aspectRatio w h))"

definition nearestHeight :: "jsnum \<Rightarrow> jsnum \<Rightarrow> jsnum" where
  "nearestHeight w h = nearest (scaledHeight w h)"

definition heightBasedWidth :: "jsnum \<Rightarrow> jsnum \<Rightarrow> jsnum" where
  "heightBasedWidth w h = js_round (js_div (nearestHeight w h) (aspectRatio w h))"

definition nearestWidthFromHeight :: "jsnum \<Rightarrow> jsnum \<Rightarrow> jsnum" where
  "nearestWidthFromHeight w h = nearest (heightBasedWidth w h)"

definition widthFirstError :: "jsnum \<Rightarrow> jsnum \<Rightarrow> jsnum" where
  "widthFirstError w h =
     js_abs (js_sub (js_div (scaledHeight w h) (nearestWidth w)) (aspectRatio w h))"

definition heightFirstError :: "jsnum \<Rightarrow> jsnum \<Rightarrow> jsnum" where
  "heightFirstError w h =
     js_abs (js_sub (js_div (nearestHeight w h) (nearestWidthFromHeight w h))
       (aspectRatio w h))"

text \<open>The two pairs between which the last line of the function chooses.\<close>

definition widthFirst :: "jsnum \<Rightarrow> jsnum \<Rightarrow> dims" where
  "widthFirst w h = \<lparr>width = nearestWidth w, height = nearestHeight w h\<rparr>"

definition heightFirst :: "jsnum \<Rightarrow> jsnum \<Rightarrow> dims" where
  "heightFirst w h = \<lparr>width = nearestWidthFromHeight w h, height = nearestHeight w h\<rparr>"

section \<open>The editors: canvas, pointer events, selection\<close>

text \<open>
  The canvas element as the editors read it. \<open>cwidth\<close> and \<open>cheight\<close> are
  \<^verbatim>\<open>canvas.width\<close> and \<^verbatim>\<open>canvas.height\<close> (the size of the bitmap);
  the two \<open>dataset\<close> fields are \<^verbatim>\<open>dataset.originalWidth\<close> and
  \<^verbatim>\<open>dataset.originalHeight\<close>, which hold the decimal text of a natural number when
  set (\<^verbatim>\<open>parseInt\<close> of that text is the number again); the \<open>rect\<close> fields are \<^verbatim>\<open>getBoundingClientRect()\<close> and the \<open>offset\<close>
  fields the layout size, both the size at which the canvas is displayed; \<open>context2d\<close>
  tells whether \<^verbatim>\<open>getContext('2d')\<close> returns a context.
\<close>

record canvas =
  cwidth :: nat
  cheight :: nat
  dataset_originalWidth :: "nat option"
  dataset_originalHeight :: "nat option"
  rect_left :: jsnum
  rect_top :: jsnum
  rect_width :: jsnum
  rect_height :: jsnum
  offsetWidth :: nat
  offsetHeight :: nat
  context2d :: bool

text \<open>
  An image: the URL it is loaded from (the \<^verbatim>\<open>imageUrl\<close> of the editor that shows
  it) and its natural size.
\<close>

record image =
  src :: string
  naturalWidth :: nat
  naturalHeight :: nat

record mouse =
  clientX :: jsnum
  clientY :: jsnum

record point =
  pt_x :: jsnum
  pt_y :: jsnum

record Selection =
  sel_x :: jsnum
  sel_y :: jsnum
  sel_width :: jsnum
  sel_height :: jsnum

text \<open>
  What the rest of the page does for an editor: whether a canvas made by
  \<^verbatim>\<open>document.createElement\<close> yields a 2d context, whether the image of the second
  \<^verbatim>\<open>ThumbnailEditor\<close> loads again (its promise rejects with a value that is no
  \<^verbatim>\<open>Error\<close> otherwise), and whether the request to \<^verbatim>\<open>/api/saveMask\<close> resolves
  (\<open>None\<close>) or rejects with a thrown value.
\<close>

record dom =
  newContext2d :: bool
  imageLoads :: bool
  saveMaskFetch :: "exn option"

text \<open>
  A mask canvas: a bitmap of \<open>mask_width\<close> by \<open>mask_height\<close> pixels filled black, on
  which one call \<^verbatim>\<open>fillRect(fill_x, fill_y, fill_width, fill_height)\<close> paints white.
  The record stands for the PNG that \<^verbatim>\<open>toDataURL\<close> makes of it.
\<close>

record mask =
  mask_width :: nat
  mask_height :: nat
  fill_x :: jsnum
  fill_y :: jsnum
  fill_width :: jsnum
  fill_height :: jsnum

text \<open>
  The image of a request: the PNG of a canvas of the given size, or the URL that
  \<^verbatim>\<open>ImageEditor\<close> passes on.
\<close>

datatype image_data = CanvasPNG nat nat | ImageUrl string

record edit_request =
  rq_prompt :: string
  rq_image :: image_data
  rq_mask :: mask
  rq_width :: "nat option"
  rq_height :: "nat option"

text \<open>The state all three editors hold.\<close>

record editor =
  selection :: "Selection option"
  prompt :: string
  loading :: bool
  error :: "string option"

subsection \<open>The first \<^verbatim>\<open>ThumbnailEditor\<close> (ThumbnailEditor.tsx, lines 18 to 271)\<close>

record editorA = editor +
  isSelecting :: bool
  startPoint :: "point option"

text \<open>The \<^verbatim>\<open>onload\<close> handler of the effect that loads the image (lines 52 to 59).\<close>

definition imageLoaded_A :: "image \<Rightarrow> canvas option \<Rightarrow> canvas option" where
  "imageLoaded_A img canvasRef =
     (case canvasRef of
        None \<Rightarrow> None
      | Some canvas \<Rightarrow>
          Some (canvas\<lparr>cwidth := naturalWidth img, cheight := naturalHeight img,
            dataset_originalWidth := Some (naturalWidth img),
            dataset_originalHeight := Some (naturalHeight img)\<rparr>))"

definition getCanvasPoint :: "canvas option \<Rightarrow> mouse \<Rightarrow> point" where
  "getCanvasPoint canvasRef e =
     (case canvasRef of
        None \<Rightarrow> \<lparr>pt_x = Fin 0, pt_y = Fin 0\<rparr>
      | Some canvas \<Rightarrow>
          let scaleX = js_div (of_n (cwidth canvas)) (rect_width canvas);
              scaleY = js_div (of_n (cheight canvas)) (rect_height canvas)
          in \<lparr>pt_x = js_mul (js_sub (clientX e) (rect_left canvas)) scaleX,
              pt_y = js_mul (js_sub (clientY e) (rect_top canvas)) scaleY\<rparr>)"

definition handleMouseDown :: "editorA \<Rightarrow> canvas option \<Rightarrow> mouse \<Rightarrow> editorA" where
  "handleMouseDown st canvasRef e =
     st\<lparr>startPoint := Some (getCanvasPoint canvasRef e), isSelecting := True\<rparr>"

definition handleMouseMove :: "editorA \<Rightarrow> canvas option \<Rightarrow> mouse \<Rightarrow> editorA" where
  "handleMouseMove st canvasRef e =
     (case startPoint st of
        None \<Rightarrow> st
      | Some start \<Rightarrow>
          if \<not> isSelecting st then st
          else let currentPoint = getCanvasPoint canvasRef e
               in st\<lparr>selection := Some
                    \<lparr>sel_x = js_min (pt_x start) (pt_x currentPoint),
                     sel_y = js_min (pt_y start) (pt_y currentPoint),
                     sel_width = js_abs (js_sub (pt_x currentPoint) (pt_x start)),
                     sel_height = js_abs (js_sub (pt_y currentPoint) (pt_y start))\<rparr>\<rparr>)"

definition handleMouseUp :: "editorA \<Rightarrow> editorA" where
  "handleMouseUp st = st\<lparr>isSelecting := False, startPoint := None\<rparr>"

text \<open>
  \<^verbatim>\<open>handleEdit\<close> up to the request it sends to \<^verbatim>\<open>/api/edit\<close>: \<open>None\<close> when the guard
  of its first line returns, \<open>Some (Inl e)\<close> when \<open>e\<close> is thrown before the request,
  \<open>Some (Inr rq)\<close> when \<open>rq\<close> is sent. \<^verbatim>\<open>toDataURL\<close> is taken to succeed (the images
  are loaded with \<^verbatim>\<open>crossOrigin\<close> set, so the canvas is not tainted).
\<close>

definition handleEdit_A :: "editorA \<Rightarrow> canvas option \<Rightarrow> dom \<Rightarrow> (exn + edit_request) option" where
  "handleEdit_A st canvasRef d =
     (case (selection st, canvasRef) of
        (Some sel, Some canvas) \<Rightarrow>
          if prompt st = [] then None
          else Some
            (if \<not> context2d canvas then Inl (Error ''Failed to get canvas context'')
             else if \<not> newContext2d d then Inl (Error ''Failed to get mask context'')
             else let maskCanvas = \<lparr>mask_width = cwidth canvas, mask_height = cheight canvas,
                        fill_x = sel_x sel, fill_y = sel_y sel,
                        fill_width = sel_width sel, fill_height = sel_height sel\<rparr>
                  in (case saveMaskFetch d of
                        Some e \<Rightarrow> Inl e
                      | None \<Rightarrow>
                          Inr \<lparr>rq_prompt = prompt st,
                               rq_image = CanvasPNG (cwidth canvas) (cheight canvas),
                               rq_mask = maskCanvas,
                               rq_width = None, rq_height = None\<rparr>))
      | _ \<Rightarrow> None)"

subsection \<open>The second \<^verbatim>\<open>ThumbnailEditor\<close> (ThumbnailEditor.tsx, lines 283 to 537)\<close>

record editorB = editor +
  isDrawing :: bool
  startPos :: point

definition imageLoaded_B :: "image \<Rightarrow> canvas option \<Rightarrow> canvas option" where
  "imageLoaded_B img canvasRef =
     (case canvasRef of
        None \<Rightarrow> None
      | Some canvas \<Rightarrow>
          Some (canvas\<lparr>dataset_originalWidth := Some (naturalWidth img),
            dataset_originalHeight := Some (naturalHeight img),
            cwidth := naturalWidth img, cheight := naturalHeight img\<rparr>))"

definition startDrawing_B :: "editorB \<Rightarrow> canvas option \<Rightarrow> mouse \<Rightarrow> editorB" where
  "startDrawing_B st canvasRef e =
     (case canvasRef of
        None \<Rightarrow> st
      | Some canvas \<Rightarrow>
          let scaleX = js_div (of_n (cwidth canvas)) (rect_width canvas);
              scaleY = js_div (of_n (cheight canvas)) (rect_height canvas);
              x = js_mul (js_sub (clientX e) (rect_left canvas)) scaleX;
              y = js_mul (js_sub (clientY e) (rect_top canvas)) scaleY
          in st\<lparr>isDrawing := True, startPos := \<lparr>pt_x = x, pt_y = y\<rparr>\<rparr>)"

definition draw_B :: "editorB \<Rightarrow> canvas option \<Rightarrow> mouse \<Rightarrow> editorB" where
  "draw_B st canvasRef e =
     (case canvasRef of
        None \<Rightarrow> st
      | Some canvas \<Rightarrow>
          if \<not> isDrawing st then st
          else if \<not> context2d canvas then st
          else
            let scaleX = js_div (of_n (cwidth canvas)) (rect_width canvas);
                scaleY = js_div (of_n (cheight canvas)) (rect_height canvas);
                x = js_mul (js_sub (clientX e) (rect_left canvas)) scaleX;
                y = js_mul (js_sub (clientY e) (rect_top canvas)) scaleY;
                w = js_sub x (pt_x (startPos st));
                h = js_sub y (pt_y (startPos st))
            in st\<lparr>selection := Some
                 \<lparr>sel_x = js_min (pt_x (startPos st)) x,
                  sel_y = js_min (pt_y (startPos st)) y,
                  sel_width = js_abs w,
                  sel_height = js_abs h\<rparr>\<rparr>)"

definition stopDrawing :: "editorB \<Rightarrow> editorB" where
  "stopDrawing st = st\<lparr>isDrawing := False\<rparr>"

text \<open>
  \<^verbatim>\<open>parseInt(canvasRef.current.dataset.originalWidth || '0')\<close>: an entry that is not
  set reads as 0.
\<close>

definition parsed :: "nat option \<Rightarrow> nat" where
  "parsed entry = (case entry of None \<Rightarrow> 0 | Some n \<Rightarrow> n)"

definition handleEdit_B :: "editorB \<Rightarrow> canvas option \<Rightarrow> dom \<Rightarrow> (exn + edit_request) option" where
  "handleEdit_B st canvasRef d =
     (case (selection st, canvasRef) of
        (Some sel, Some canvas) \<Rightarrow>
          if prompt st = [] then None
          else Some
            (let originalWidth = parsed (dataset_originalWidth canvas);
                 originalHeight = parsed (dataset_originalHeight canvas)
             in if originalWidth = 0 \<or> originalHeight = 0
                then Inl (Error ''Original image dimensions not found'')
                else if \<not> newContext2d d then Inl (Error ''Failed to get image context'')
                else if \<not> imageLoads d then Inl NonError
                else if \<not> newContext2d d then Inl (Error ''Failed to get mask context'')
                else
                  let scaleX = js_div (of_n originalWidth) (of_n (offsetWidth canvas));
                      scaleY = js_div (of_n originalHeight) (of_n (offsetHeight canvas));
                      maskCanvas = \<lparr>mask_width = originalWidth, mask_height = originalHeight,
                        fill_x = js_round (js_mul (sel_x sel) scaleX),
                        fill_y = js_round (js_mul (sel_y sel) scaleY),
                        fill_width = js_round (js_mul (sel_width sel) scaleX),
                        fill_height = js_round (js_mul (sel_height sel) scaleY)\<rparr>
                  in Inr \<lparr>rq_prompt = prompt st,
                          rq_image = CanvasPNG originalWidth originalHeight,
                          rq_mask = maskCanvas,
                          rq_width = Some originalWidth,
                          rq_height = Some originalHeight\<rparr>)
      | _ \<Rightarrow> None)"

subsection \<open>\<^verbatim>\<open>ImageEditor\<close> (ImageEditor.tsx)\<close>

text \<open>The \<^verbatim>\<open>onLoad\<close> handler of the hidden image (lines 134 to 139).\<close>

definition imageLoaded_IE :: "image \<Rightarrow> canvas option \<Rightarrow> canvas option" where
  "imageLoaded_IE img canvasRef =
     (case canvasRef of
        None \<Rightarrow> None
      | Some canvas \<Rightarrow>
          Some (canvas\<lparr>cwidth := naturalWidth img, cheight := naturalHeight img\<rparr>))"

definition startDrawing_IE :: "editorB \<Rightarrow> canvas option \<Rightarrow> mouse \<Rightarrow> editorB" where
  "startDrawing_IE st canvasRef e =
     (case canvasRef of
        None \<Rightarrow> st
      | Some canvas \<Rightarrow>
          let x = js_sub (clientX e) (rect_left canvas);
              y = js_sub (clientY e) (rect_top canvas)
          in st\<lparr>isDrawing := True, startPos := \<lparr>pt_x = x, pt_y = y\<rparr>,
               selection := None\<rparr>)"

definition draw_IE :: "editorB \<Rightarrow> canvas option \<Rightarrow> mouse \<Rightarrow> editorB" where
  "draw_IE st canvasRef e =
     (case canvasRef of
        None \<Rightarrow> st
      | Some canvas \<Rightarrow>
          if \<not> isDrawing st then st
          else if \<not> context2d canvas then st
          else
            let x = js_sub (clientX e) (rect_left canvas);
                y = js_sub (clientY e) (rect_top canvas);
                w = js_sub x (pt_x (startPos st));
                h = js_sub y (pt_y (startPos st))
            in st\<lparr>selection := Some
                 \<lparr>sel_x = js_min (pt_x (startPos st)) x,
                  sel_y = js_min (pt_y (startPos st)) y,
                  sel_width = js_abs w,
                  sel_height = js_abs h\<rparr>\<rparr>)"

text \<open>\<^verbatim>\<open>createMask\<close> returns \<^verbatim>\<open>null\<close> (\<open>None\<close>) or the mask.\<close>

definition createMask :: "editorB \<Rightarrow> canvas option \<Rightarrow> dom \<Rightarrow> mask option" where
  "createMask st canvasRef d =
     (case (selection st, canvasRef) of
        (Some sel, Some canvasRefCurrent) \<Rightarrow>
          if \<not> newContext2d d then None
          else Some \<lparr>mask_width = cwidth canvasRefCurrent,
                     mask_height = cheight canvasRefCurrent,
                     fill_x = sel_x sel, fill_y = sel_y sel,
                     fill_width = sel_width sel, fill_height = sel_height sel\<rparr>
      | _ \<Rightarrow> None)"

definition handleEdit_IE ::
  "string \<Rightarrow> editorB \<Rightarrow> canvas option \<Rightarrow> dom \<Rightarrow> (exn + edit_request) option" where
  "handleEdit_IE imageUrl st canvasRef d =
     (if selection st = None \<or> prompt st = [] then None
      else Some
        (case createMask st canvasRef d of
           None \<Rightarrow> Inl (Error ''Failed to create mask'')
         | Some m \<Rightarrow>
             Inr \<lparr>rq_prompt = prompt st, rq_image = ImageUrl imageUrl, rq_mask = m,
                  rq_width = None, rq_height = None\<rparr>))"

subsection \<open>What a mask shows\<close>

text \<open>
  The pixels that \<^verbatim>\<open>fillRect\<close> leaves white, as the canvas paints them: nothing is
  painted when an argument is not finite, a negative width or height extends the
  rectangle to the other side, and only the pixels of the bitmap exist. Pixel \<open>(i, j)\<close>
  is white when the rectangle covers it whole (a pixel covered in part is blended).
\<close>

definition white_pixel :: "mask \<Rightarrow> nat \<Rightarrow> nat \<Rightarrow> bool" where
  "white_pixel m i j =
     (i < mask_width m \<and> j < mask_height m \<and>
      (case (fill_x m, fill_y m, fill_width m, fill_height m) of
         (Fin x, Fin y, Fin w, Fin h) \<Rightarrow>
           min x (x + w) \<le> of_nat i \<and> of_nat i + 1 \<le> max x (x + w) \<and>
           min y (y + h) \<le> of_nat j \<and> of_nat j + 1 \<le> max y (y + h)
       | _ \<Rightarrow> False))"

text \<open>
  The rectangle handed to \<^verbatim>\<open>fillRect\<close> lies within
  \<open>[0, mask_width] \<times> [0, mask_height]\<close>.
\<close>

definition within_bounds :: "mask \<Rightarrow> bool" where
  "within_bounds m =
     (case (fill_x m, fill_y m, fill_width m, fill_height m) of
        (Fin x, Fin y, Fin w, Fin h) \<Rightarrow>
          0 \<le> x \<and> 0 \<le> y \<and> 0 \<le> w \<and> 0 \<le> h \<and>
          x + w \<le> of_nat (mask_width m) \<and> y + h \<le> of_nat (mask_height m)
      | _ \<Rightarrow> False)"

fun js_finite :: "jsnum \<Rightarrow> bool" where
  "js_finite (Fin a) = True"
| "js_finite _ = False"

section \<open>The edit route (\<^verbatim>\<open>POST\<close>)\<close>

text \<open>
  The parsed body of a request. A field that is absent is \<open>None\<close>; the three editors
  send strings for \<^verbatim>\<open>prompt\<close>, \<^verbatim>\<open>image\<close> and \<^verbatim>\<open>mask\<close> and numbers for
  \<^verbatim>\<open>width\<close> and \<^verbatim>\<open>height\<close>.
\<close>

record edit_body =
  body_prompt :: "string option"
  body_image :: "string option"
  body_mask :: "string option"
  body_width :: "jsnum option"
  body_height :: "jsnum option"

text \<open>Truthiness of a field: absent and the empty string are falsy.\<close>

fun truthy :: "string option \<Rightarrow> bool" where
  "truthy None = False"
| "truthy (Some s) = (s \<noteq> [])"

text \<open>
  The input of \<^verbatim>\<open>replicate.predictions.create\<close>; the model version and the four
  constant entries of the input are the same in every call and are left out.
\<close>

record create_input =
  in_prompt :: string
  in_image :: string
  in_mask :: string

datatype prediction_output = ONull | OString string | OArray "string list"

record poll_result =
  res_error :: "string option"
  res_status :: string
  res_output :: prediction_output

text \<open>
  The prediction service: \<open>predictions_create\<close> returns the id of the prediction or
  throws; \<open>predictions_get pid k\<close> is the answer to the call of
  \<^verbatim>\<open>replicate.predictions.get\<close> that \<open>k\<close> such calls precede (the polls are
  sequential), or what that call throws.
\<close>

record replicate =
  predictions_create :: "create_input \<Rightarrow> exn + string"
  predictions_get :: "string \<Rightarrow> nat \<Rightarrow> exn + poll_result"

datatype response_body = ImageUrlBody string | ErrorBody string

record response =
  status :: nat
  body :: response_body

definition maxAttempts :: nat where
  "maxAttempts = 60"

text \<open>
  \<^verbatim>\<open>Array.isArray(result.output) ? result.output[0] : result.output\<close>; \<open>None\<close> is
  \<^verbatim>\<open>null\<close> or \<^verbatim>\<open>undefined\<close>.
\<close>

fun first_output :: "prediction_output \<Rightarrow> string option" where
  "first_output ONull = None"
| "first_output (OString s) = Some s"
| "first_output (OArray []) = None"
| "first_output (OArray (u # us)) = Some u"

text \<open>
  The polling loop (lines 124 to 144), from the value \<open>attempts\<close> of its counter: the
  value of \<^verbatim>\<open>resultImageUrl\<close> when the loop ends, or what it throws. The wait of one
  second between two polls is not modelled. (\<open>the\<close> reads a field only where \<open>truthy\<close>
  has found it present, here and in the handler.)
\<close>

function pollLoop :: "(nat \<Rightarrow> exn + poll_result) \<Rightarrow> nat \<Rightarrow> exn + string option" where
  "pollLoop get attempts =
     (if attempts < maxAttempts then
        (case get attempts of
           Inl e \<Rightarrow> Inl e
         | Inr result \<Rightarrow>
             if truthy (res_error result)
             then Inl (Error (''Replicate error: '' @ the (res_error result)))
             else if res_status result = ''succeeded''
             then Inr (first_output (res_output result))
             else if res_status result = ''failed''
             then Inl (Error ''Image generation failed'')
             else pollLoop get (Suc attempts))
      else Inr None)"
  by pat_completeness auto
termination
  by (relation "measure (\<lambda>(get, attempts). maxAttempts - attempts)") auto

declare pollLoop.simps [simp del]

text \<open>The body of the \<^verbatim>\<open>try\<close> block; the argument is what \<^verbatim>\<open>req.json()\<close> gives.\<close>

definition POST_try :: "replicate \<Rightarrow> exn + edit_body \<Rightarrow> exn + response" where
  "POST_try rep req_json =
     (case req_json of
        Inl e \<Rightarrow> Inl e
      | Inr b \<Rightarrow>
          if \<not> truthy (body_prompt b) \<or> \<not> truthy (body_image b) \<or> \<not> truthy (body_mask b)
          then Inr \<lparr>status = 400,
                    body = ErrorBody ''Missing required fields (prompt, image, mask)''\<rparr>
          else
            (case predictions_create rep
                    \<lparr>in_prompt = the (body_prompt b) @ '', highly detailed, perfect quality, 4k'',
                     in_image = the (body_image b), in_mask = the (body_mask b)\<rparr> of
               Inl e \<Rightarrow> Inl e
             | Inr prediction_id \<Rightarrow>
                 (case pollLoop (predictions_get rep prediction_id) 0 of
                    Inl e \<Rightarrow> Inl e
                  | Inr resultImageUrl \<Rightarrow>
                      if \<not> truthy resultImageUrl
                      then Inl (Error ''Timeout waiting for image generation'')
                      else Inr \<lparr>status = 200,
                                body = ImageUrlBody (the resultImageUrl)\<rparr>)))"

definition POST :: "replicate \<Rightarrow> exn + edit_body \<Rightarrow> response" where
  "POST rep req_json =
     (case POST_try rep req_json of
        Inr r \<Rightarrow> r
      | Inl e \<Rightarrow>
          \<lparr>status = 500,
           body = ErrorBody (case e of Error message \<Rightarrow> message
                             | NonError \<Rightarrow> ''Failed to process image'')\<rparr>)"

text \<open>
  A poll that neither ends the loop nor throws: no error payload, and a status other than
  \<^verbatim>\<open>succeeded\<close> and \<^verbatim>\<open>failed\<close>.
\<close>

definition pending :: "poll_result \<Rightarrow> bool" where
  "pending r =
     (\<not> truthy (res_error r) \<and> res_status r \<noteq> ''succeeded'' \<and> res_status r \<noteq> ''failed'')"

text \<open>A request and four prediction services, for the concrete runs below.\<close>

definition request_body :: edit_body where
  "request_body = \<lparr>body_prompt = Some ''a red hat'', body_image = Some ''data:image/png;base64,AAAA'',
     body_mask = Some ''data:image/png;base64,BBBB'', body_width = None, body_height = None\<rparr>"

definition processing :: poll_result where
  "processing = \<lparr>res_error = None, res_status = ''processing'', res_output = ONull\<rparr>"

definition service_succeeds_on_fourth_poll :: replicate where
  "service_succeeds_on_fourth_poll =
     \<lparr>predictions_create = (\<lambda>i. Inr ''p1''),
      predictions_get = (\<lambda>pid k. Inr (if k < 3 then processing
         else \<lparr>res_error = None, res_status = ''succeeded'',
               res_output = OArray [''https://replicate.delivery/out.png'']\<rparr>))\<rparr>"

definition service_succeeds_without_output :: replicate where
  "service_succeeds_without_output =
     \<lparr>predictions_create = (\<lambda>i. Inr ''p1''),
      predictions_get = (\<lambda>pid k. Inr \<lparr>res_error = None, res_status = ''succeeded'',
         res_output = ONull\<rparr>)\<rparr>"

definition service_never_ends :: replicate where
  "service_never_ends =
     \<lparr>predictions_create = (\<lambda>i. Inr ''p1''), predictions_get = (\<lambda>pid k. Inr processing)\<rparr>"

definition service_succeeds_with_error :: replicate where
  "service_succeeds_with_error =
     \<lparr>predictions_create = (\<lambda>i. Inr ''p1''),
      predictions_get = (\<lambda>pid k. Inr \<lparr>res_error = Some ''partial'',
         res_status = ''succeeded'',
         res_output = OString ''https://replicate.delivery/out.png''\<rparr>)\<rparr>"

section \<open>Concrete runs of the editors\<close>

text \<open>
  An image of 200 by 200 pixels, a canvas displayed at 100 by 100 (before the image is
  loaded its bitmap has the default size), a canvas that is not displayed, a page on
  which every step succeeds, a pointer event, and the idle states with a prompt typed.
\<close>

definition thumbnail :: image where
  "thumbnail = \<lparr>src = ''https://replicate.delivery/t.webp'', naturalWidth = 200,
     naturalHeight = 200\<rparr>"

definition shown_canvas :: canvas where
  "shown_canvas =
     \<lparr>cwidth = 300, cheight = 150, dataset_originalWidth = None, dataset_originalHeight = None,
      rect_left = Fin 0, rect_top = Fin 0, rect_width = Fin 100, rect_height = Fin 100,
      offsetWidth = 100, offsetHeight = 100, context2d = True\<rparr>"

definition hidden_canvas :: canvas where
  "hidden_canvas =
     \<lparr>cwidth = 200, cheight = 200, dataset_originalWidth = Some 200, dataset_originalHeight = Some 200,
      rect_left = Fin 0, rect_top = Fin 0, rect_width = Fin 0, rect_height = Fin 0,
      offsetWidth = 0, offsetHeight = 0, context2d = True\<rparr>"

definition page :: dom where
  "page = \<lparr>newContext2d = True, imageLoads = True, saveMaskFetch = None\<rparr>"

definition pointer :: "rat \<Rightarrow> rat \<Rightarrow> mouse" where
  "pointer px py = \<lparr>clientX = Fin px, clientY = Fin py\<rparr>"

definition idleA :: editorA where
  "idleA = \<lparr>selection = None, prompt = ''add a hat'', loading = False, error = None,
     isSelecting = False, startPoint = None\<rparr>"

definition idleB :: editorB where
  "idleB = \<lparr>selection = None, prompt = ''add a hat'', loading = False, error = None,
     isDrawing = False, startPos = \<lparr>pt_x = Fin 0, pt_y = Fin 0\<rparr>\<rparr>"

text \<open>
  The canvas once the image is loaded, a selection that is stored as 160 pixels wide, and
  the requests that the three editors send for it.
\<close>

definition loaded_canvas :: canvas where
  "loaded_canvas =
     \<lparr>cwidth = 200, cheight = 200, dataset_originalWidth = Some 200, dataset_originalHeight = Some 200,
      rect_left = Fin 0, rect_top = Fin 0, rect_width = Fin 100, rect_height = Fin 100,
      offsetWidth = 100, offsetHeight = 100, context2d = True\<rparr>"

definition wide :: Selection where
  "wide = \<lparr>sel_x = Fin 0, sel_y = Fin 0, sel_width = Fin 160, sel_height = Fin 160\<rparr>"

definition sent_A :: edit_request where
  "sent_A = \<lparr>rq_prompt = ''add a hat'', rq_image = CanvasPNG 200 200,
     rq_mask = \<lparr>mask_width = 200, mask_height = 200, fill_x = Fin 0, fill_y = Fin 0,
       fill_width = Fin 160, fill_height = Fin 160\<rparr>,
     rq_width = None, rq_height = None\<rparr>"

definition sent_B :: edit_request where
  "sent_B = \<lparr>rq_prompt = ''add a hat'', rq_image = CanvasPNG 200 200,
     rq_mask = \<lparr>mask_width = 200, mask_height = 200, fill_x = Fin 0, fill_y = Fin 0,
       fill_width = Fin 320, fill_height = Fin 320\<rparr>,
     rq_width = Some 200, rq_height = Some 200\<rparr>"

definition sent_IE :: edit_request where
  "sent_IE = \<lparr>rq_prompt = ''add a hat'',
     rq_image = ImageUrl ''https://replicate.delivery/t.webp'',
     rq_mask = \<lparr>mask_width = 200, mask_height = 200, fill_x = Fin 0, fill_y = Fin 0,
       fill_width = Fin 160, fill_height = Fin 160\<rparr>,
     rq_width = None, rq_height = None\<rparr>"

text \<open>
  A drag in each editor: the button goes down at \<open>down\<close>, the pointer moves to \<open>move\<close>,
  the button goes up.
\<close>

definition dragA :: "canvas option \<Rightarrow> mouse \<Rightarrow> mouse \<Rightarrow> editorA" where
  "dragA canvasRef down move =
     handleMouseUp (handleMouseMove (handleMouseDown idleA canvasRef down) canvasRef move)"

definition dragB :: "canvas option \<Rightarrow> mouse \<Rightarrow> mouse \<Rightarrow> editorB" where
  "dragB canvasRef down move =
     stopDrawing (draw_B (startDrawing_B idleB canvasRef down) canvasRef move)"

definition dragIE :: "canvas option \<Rightarrow> mouse \<Rightarrow> mouse \<Rightarrow> editorB" where
  "dragIE canvasRef down move =
     stopDrawing (draw_IE (startDrawing_IE idleB canvasRef down) canvasRef move)"

section \<open>The snapper as the specification words it\<close>

text \<open>
  The height-first candidate in the words of the specification (section 4.1, step 3):
  \<open>nearestHeight\<close> is the lattice value nearest to the original height, the width is
  derived back from it as \<open>round (nearestHeight * width / height)\<close> and snapped. It is
  compared below with \<open>heightFirst\<close>, which follows the source.
\<close>

definition heightFirst_spec :: "jsnum \<Rightarrow> jsnum \<Rightarrow> dims" where
  "heightFirst_spec w h =
     (let nearestHeight = nearest h;
          widthFromHeight = js_round (js_mul nearestHeight (js_div w h))
      in \<lparr>width = nearest widthFromHeight, height = nearestHeight\<rparr>)"

text \<open>
  The aspect-ratio error of a candidate pair in the words of the specification (step 4):
  \<open>|candidateHeight / candidateWidth - height / width|\<close>.
\<close>

definition aspectError :: "dims \<Rightarrow> jsnum \<Rightarrow> jsnum \<Rightarrow> jsnum" where
  "aspectError d w h = js_abs (js_sub (js_div (height d) (width d)) (js_div h w))"

text \<open>
  \<open>v\<close> is the lattice value nearest to \<open>s\<close>: a member of the lattice that is at least as
  close to \<open>s\<close> as every other member, and the smaller one of two members that are
  equally close.
\<close>

definition nearest_of_lattice :: "jsnum \<Rightarrow> rat \<Rightarrow> bool" where
  "nearest_of_lattice v s =
     (case v of
        Fin n \<Rightarrow>
          v \<in> set VALID_SIZES \<and>
          list_all (\<lambda>u. case u of
                      Fin y \<Rightarrow> \<bar>n - s\<bar> \<le> \<bar>y - s\<bar> \<and> (\<bar>y - s\<bar> = \<bar>n - s\<bar> \<longrightarrow> n \<le> y)
                    | _ \<Rightarrow> True) VALID_SIZES
      | _ \<Rightarrow> False)"

section \<open>Helper lemmas: arithmetic\<close>

lemma floor_rat_numeral_divide:
  "\<lfloor>(numeral a :: rat) / numeral b\<rfloor> = numeral a div numeral b"
  by (metis floor_divide_of_int_eq of_int_numeral)

lemma floor_rat_one_divide: "\<lfloor>(1 :: rat) / numeral b\<rfloor> = 1 div numeral b"
  by (metis floor_divide_of_int_eq of_int_1 of_int_numeral)

lemma floor_rat_neg_numeral_divide:
  "\<lfloor>- ((numeral a :: rat) / numeral b)\<rfloor> = - numeral a div numeral b"
  by (metis floor_divide_of_int_eq minus_divide_left of_int_minus of_int_numeral)

section \<open>Helper lemmas: the snapper\<close>

lemma reduce_VALID_SIZES: "reduce (closer t) VALID_SIZES = Inr (nearest t)"
  by (simp add: VALID_SIZES_def nearest_def)

lemma getNearestValidSize_eq:
  "getNearestValidSize w h =
     Inr (if js_lt (widthFirstError w h) (heightFirstError w h)
          then widthFirst w h else heightFirst w h)"
  by (simp add: getNearestValidSize_def reduce_VALID_SIZES Let_def widthFirst_def
      heightFirst_def widthFirstError_def heightFirstError_def nearestWidthFromHeight_def
      heightBasedWidth_def nearestHeight_def scaledHeight_def aspectRatio_def
      nearestWidth_def)

lemma foldl_closer_mem: "foldl (closer t) x xs \<in> set (x # xs)"
  by (induction xs arbitrary: x) (auto simp: closer_def)

lemma nearest_in_VALID_SIZES: "nearest t \<in> set VALID_SIZES"
  unfolding nearest_def VALID_SIZES_def by (rule foldl_closer_mem)

lemmas js_eval = closer_def js_sub_def floor_rat_numeral_divide floor_rat_one_divide
  floor_rat_neg_numeral_divide

lemma nearest_Fin: "\<exists>k. nearest t = Fin k \<and> 0 < k"
  using nearest_in_VALID_SIZES [of t] by (auto simp: VALID_SIZES_def)

subsection \<open>The snapper at \<open>(100, 275)\<close>\<close>

lemma at_100_275_nearestWidth: "nearestWidth (Fin 100) = Fin 128"
  by (simp add: nearestWidth_def nearest_def js_eval)

lemma at_100_275_scaledHeight: "scaledHeight (Fin 100) (Fin 275) = Fin 352"
  by (simp add: scaledHeight_def at_100_275_nearestWidth aspectRatio_def js_eval)

lemma at_100_275_nearestHeight: "nearestHeight (Fin 100) (Fin 275) = Fin 320"
  by (simp add: nearestHeight_def at_100_275_scaledHeight nearest_def js_eval)

lemma at_100_275_heightBasedWidth: "heightBasedWidth (Fin 100) (Fin 275) = Fin 116"
  by (simp add: heightBasedWidth_def at_100_275_nearestHeight aspectRatio_def js_eval)

lemma at_100_275_nearestWidthFromHeight:
  "nearestWidthFromHeight (Fin 100) (Fin 275) = Fin 128"
  by (simp add: nearestWidthFromHeight_def at_100_275_heightBasedWidth nearest_def js_eval)

lemma nearest_275: "nearest (Fin 275) = Fin 256"
  by (simp add: nearest_def js_eval)

lemma nearest_93: "nearest (Fin 93) = Fin 64"
  by (simp add: nearest_def js_eval)

lemma at_100_275_heightFirst_spec:
  "heightFirst_spec (Fin 100) (Fin 275) = \<lparr>width = Fin 64, height = Fin 256\<rparr>"
  by (simp add: heightFirst_spec_def nearest_275 nearest_93 js_eval)

subsection \<open>The snapper at \<open>(1024, 2000)\<close>\<close>

lemma nearestWidth_1024: "nearestWidth (Fin 1024) = Fin 1024"
  by (simp add: nearestWidth_def nearest_def js_eval)

lemma at_1024_2000_scaledHeight: "scaledHeight (Fin 1024) (Fin 2000) = Fin 2000"
  by (simp add: scaledHeight_def nearestWidth_1024 aspectRatio_def js_eval)

lemma at_1024_2000_nearestHeight: "nearestHeight (Fin 1024) (Fin 2000) = Fin 1024"
  by (simp add: nearestHeight_def at_1024_2000_scaledHeight nearest_def js_eval)

lemma at_1024_2000_heightBasedWidth: "heightBasedWidth (Fin 1024) (Fin 2000) = Fin 524"
  by (simp add: heightBasedWidth_def at_1024_2000_nearestHeight aspectRatio_def js_eval)

lemma at_1024_2000_nearestWidthFromHeight:
  "nearestWidthFromHeight (Fin 1024) (Fin 2000) = Fin 512"
  by (simp add: nearestWidthFromHeight_def at_1024_2000_heightBasedWidth nearest_def js_eval)

lemma at_1024_2000_widthFirstError: "widthFirstError (Fin 1024) (Fin 2000) = Fin 0"
  by (simp add: widthFirstError_def nearestWidth_1024 at_1024_2000_scaledHeight
      aspectRatio_def js_eval)

lemma at_1024_2000_heightFirstError: "heightFirstError (Fin 1024) (Fin 2000) = Fin (3 / 64)"
  by (simp add: heightFirstError_def at_1024_2000_nearestHeight
      at_1024_2000_nearestWidthFromHeight aspectRatio_def js_eval)

subsection \<open>The snapper at \<open>(1024, 2048)\<close>\<close>

lemma at_1024_2048_scaledHeight: "scaledHeight (Fin 1024) (Fin 2048) = Fin 2048"
  by (simp add: scaledHeight_def nearestWidth_1024 aspectRatio_def js_eval)

lemma at_1024_2048_nearestHeight: "nearestHeight (Fin 1024) (Fin 2048) = Fin 1024"
  by (simp add: nearestHeight_def at_1024_2048_scaledHeight nearest_def js_eval)

lemma at_1024_2048_heightBasedWidth: "heightBasedWidth (Fin 1024) (Fin 2048) = Fin 512"
  by (simp add: heightBasedWidth_def at_1024_2048_nearestHeight aspectRatio_def js_eval)

lemma at_1024_2048_nearestWidthFromHeight:
  "nearestWidthFromHeight (Fin 1024) (Fin 2048) = Fin 512"
  by (simp add: nearestWidthFromHeight_def at_1024_2048_heightBasedWidth nearest_def js_eval)

lemma at_1024_2048_widthFirstError: "widthFirstError (Fin 1024) (Fin 2048) = Fin 0"
  by (simp add: widthFirstError_def nearestWidth_1024 at_1024_2048_scaledHeight
      aspectRatio_def js_eval)

lemma at_1024_2048_heightFirstError: "heightFirstError (Fin 1024) (Fin 2048) = Fin 0"
  by (simp add: heightFirstError_def at_1024_2048_nearestHeight
      at_1024_2048_nearestWidthFromHeight aspectRatio_def js_eval)

subsection \<open>The snapper at \<open>(0, 100)\<close>\<close>

lemma nearestWidth_0: "nearestWidth (Fin 0) = Fin 64"
  by (simp add: nearestWidth_def nearest_def js_eval)

lemma at_0_100_aspectRatio: "aspectRatio (Fin 0) (Fin 100) = PInf"
  by (simp add: aspectRatio_def)

lemma at_0_100_scaledHeight: "scaledHeight (Fin 0) (Fin 100) = PInf"
  by (simp add: scaledHeight_def nearestWidth_0 at_0_100_aspectRatio)

lemma at_0_100_nearestHeight: "nearestHeight (Fin 0) (Fin 100) = Fin 64"
  by (simp add: nearestHeight_def at_0_100_scaledHeight nearest_def js_eval)

lemma at_0_100_heightBasedWidth: "heightBasedWidth (Fin 0) (Fin 100) = Fin 0"
  by (simp add: heightBasedWidth_def at_0_100_nearestHeight at_0_100_aspectRatio js_eval)

lemma at_0_100_nearestWidthFromHeight: "nearestWidthFromHeight (Fin 0) (Fin 100) = Fin 64"
  by (simp add: nearestWidthFromHeight_def at_0_100_heightBasedWidth nearest_def js_eval)

lemma at_0_100_widthFirstError: "widthFirstError (Fin 0) (Fin 100) = NaN"
  by (simp add: widthFirstError_def nearestWidth_0 at_0_100_scaledHeight
      at_0_100_aspectRatio js_eval)

section \<open>Helper lemmas: the editors\<close>

lemmas fixture_defs = thumbnail_def shown_canvas_def hidden_canvas_def page_def pointer_def
  idleA_def idleB_def

lemmas handler_defs = imageLoaded_A_def imageLoaded_B_def imageLoaded_IE_def
  getCanvasPoint_def handleMouseDown_def handleMouseMove_def handleMouseUp_def
  startDrawing_B_def draw_B_def stopDrawing_def startDrawing_IE_def draw_IE_def
  handleEdit_A_def handleEdit_B_def createMask_def handleEdit_IE_def parsed_def of_n_def

text \<open>The drag from \<open>(0, 0)\<close> to \<open>(50, 50)\<close> on the displayed canvas, in each editor.\<close>

lemma drag_50_A:
  "handleEdit_A
     (dragA (imageLoaded_A thumbnail (Some shown_canvas)) (pointer 0 0) (pointer 50 50))
     (imageLoaded_A thumbnail (Some shown_canvas)) page =
   Some (Inr \<lparr>rq_prompt = ''add a hat'', rq_image = CanvasPNG 200 200,
     rq_mask = \<lparr>mask_width = 200, mask_height = 200, fill_x = Fin 0, fill_y = Fin 0,
       fill_width = Fin 100, fill_height = Fin 100\<rparr>,
     rq_width = None, rq_height = None\<rparr>)"
  by (simp add: dragA_def fixture_defs handler_defs js_eval Let_def)

lemma drag_50_B_selection:
  "selection
     (dragB (imageLoaded_B thumbnail (Some shown_canvas)) (pointer 0 0) (pointer 50 50)) =
   Some \<lparr>sel_x = Fin 0, sel_y = Fin 0, sel_width = Fin 100, sel_height = Fin 100\<rparr>"
  by (simp add: dragB_def fixture_defs handler_defs js_eval Let_def)

lemma drag_50_B:
  "handleEdit_B
     (dragB (imageLoaded_B thumbnail (Some shown_canvas)) (pointer 0 0) (pointer 50 50))
     (imageLoaded_B thumbnail (Some shown_canvas)) page =
   Some (Inr \<lparr>rq_prompt = ''add a hat'', rq_image = CanvasPNG 200 200,
     rq_mask = \<lparr>mask_width = 200, mask_height = 200, fill_x = Fin 0, fill_y = Fin 0,
       fill_width = Fin 200, fill_height = Fin 200\<rparr>,
     rq_width = Some 200, rq_height = Some 200\<rparr>)"
  by (simp add: dragB_def fixture_defs handler_defs js_eval Let_def)

lemma drag_50_IE_selection:
  "selection
     (dragIE (imageLoaded_IE thumbnail (Some shown_canvas)) (pointer 0 0) (pointer 50 50)) =
   Some \<lparr>sel_x = Fin 0, sel_y = Fin 0, sel_width = Fin 50, sel_height = Fin 50\<rparr>"
  by (simp add: dragIE_def fixture_defs handler_defs js_eval Let_def)

lemma drag_50_IE:
  "handleEdit_IE ''https://replicate.delivery/t.webp''
     (dragIE (imageLoaded_IE thumbnail (Some shown_canvas)) (pointer 0 0) (pointer 50 50))
     (imageLoaded_IE thumbnail (Some shown_canvas)) page =
   Some (Inr \<lparr>rq_prompt = ''add a hat'',
     rq_image = ImageUrl ''https://replicate.delivery/t.webp'',
     rq_mask = \<lparr>mask_width = 200, mask_height = 200, fill_x = Fin 0, fill_y = Fin 0,
       fill_width = Fin 50, fill_height = Fin 50\<rparr>,
     rq_width = None, rq_height = None\<rparr>)"
  by (simp add: dragIE_def fixture_defs handler_defs js_eval Let_def)

text \<open>Two drags that lead out of the bitmap.\<close>

lemma drag_80_B:
  "handleEdit_B
     (dragB (imageLoaded_B thumbnail (Some shown_canvas)) (pointer 0 0) (pointer 80 80))
     (imageLoaded_B thumbnail (Some shown_canvas)) page =
   Some (Inr \<lparr>rq_prompt = ''add a hat'', rq_image = CanvasPNG 200 200,
     rq_mask = \<lparr>mask_width = 200, mask_height = 200, fill_x = Fin 0, fill_y = Fin 0,
       fill_width = Fin 320, fill_height = Fin 320\<rparr>,
     rq_width = Some 200, rq_height = Some 200\<rparr>)"
  by (simp add: dragB_def fixture_defs handler_defs js_eval Let_def)

lemma drag_150_A:
  "handleEdit_A
     (dragA (imageLoaded_A thumbnail (Some shown_canvas)) (pointer 0 0) (pointer 150 150))
     (imageLoaded_A thumbnail (Some shown_canvas)) page =
   Some (Inr \<lparr>rq_prompt = ''add a hat'', rq_image = CanvasPNG 200 200,
     rq_mask = \<lparr>mask_width = 200, mask_height = 200, fill_x = Fin 0, fill_y = Fin 0,
       fill_width = Fin 300, fill_height = Fin 300\<rparr>,
     rq_width = None, rq_height = None\<rparr>)"
  by (simp add: dragA_def fixture_defs handler_defs js_eval Let_def)

text \<open>The white pixels of a square painted from the origin.\<close>

lemma white_pixel_square:
  "white_pixel \<lparr>mask_width = W, mask_height = H, fill_x = Fin 0, fill_y = Fin 0,
       fill_width = Fin (of_nat n), fill_height = Fin (of_nat n)\<rparr> i j =
     (i < W \<and> j < H \<and> i < n \<and> j < n)"
proof -
  have "(rat_of_nat k + 1 \<le> rat_of_nat n) = (k < n)" for k
  proof -
    have "rat_of_nat k + 1 = rat_of_nat (Suc k)" by simp
    then have "(rat_of_nat k + 1 \<le> rat_of_nat n) = (Suc k \<le> n)"
      by (simp only: of_nat_le_iff)
    then show ?thesis by (simp add: Suc_le_eq)
  qed
  then show ?thesis
    by (auto simp: white_pixel_def)
qed

lemma wide_A: "handleEdit_A (idleA\<lparr>selection := Some wide\<rparr>) (Some loaded_canvas) page =
    Some (Inr sent_A)"
  by (simp add: fixture_defs handler_defs loaded_canvas_def wide_def sent_A_def Let_def)

lemma wide_B: "handleEdit_B (idleB\<lparr>selection := Some wide\<rparr>) (Some loaded_canvas) page =
    Some (Inr sent_B)"
  by (simp add: fixture_defs handler_defs loaded_canvas_def wide_def sent_B_def js_eval Let_def)

lemma wide_IE: "handleEdit_IE ''https://replicate.delivery/t.webp''
    (idleB\<lparr>selection := Some wide\<rparr>) (Some loaded_canvas) page = Some (Inr sent_IE)"
  by (simp add: fixture_defs handler_defs loaded_canvas_def wide_def sent_IE_def Let_def)

lemma wide_B_pixel: "white_pixel (rq_mask sent_B) 150 150"
  using white_pixel_square [of 200 200 320 150 150] by (simp add: sent_B_def)

lemma white_pixel_inside: "white_pixel m i j \<Longrightarrow> i < mask_width m \<and> j < mask_height m"
  by (simp add: white_pixel_def)

lemma js_mul_PInf_not_finite: "\<not> js_finite (js_round (js_mul v PInf))"
  by (cases v) auto

lemma js_div_zero_not_finite: "\<not> js_finite (js_div v (Fin 0))"
  by (cases v) auto

lemma js_mul_not_finite: "\<not> js_finite s \<Longrightarrow> \<not> js_finite (js_mul v s)"
  by (cases v; cases s) auto

lemma white_pixel_not_finite_x: "\<not> js_finite (fill_x m) \<Longrightarrow> \<not> white_pixel m i j"
  by (cases "fill_x m") (auto simp: white_pixel_def)

lemma white_pixel_not_finite_y: "\<not> js_finite (fill_y m) \<Longrightarrow> \<not> white_pixel m i j"
  by (cases "fill_x m"; cases "fill_y m") (auto simp: white_pixel_def)

section \<open>A selection is scaled once\<close>

text \<open>
  Claim C1 says that the selection \<open>{x: 0, y: 0, width: 50, height: 50}\<close> drawn on a
  canvas displayed at 100 by 100, over an image of 200 by 200, gives a mask of 200 by
  200 whose white region is exactly \<open>{x: 0, y: 0, width: 100, height: 100}\<close>: the
  selection is scaled once. The first \<^verbatim>\<open>ThumbnailEditor\<close> does so. In the second one
  \<^verbatim>\<open>startDrawing\<close> and \<^verbatim>\<open>draw\<close> scale the pointer positions already (the selection
  they store is \<open>{0, 0, 100, 100}\<close>) and \<^verbatim>\<open>handleEdit\<close> scales the selection again:
  the whole mask is white. \<^verbatim>\<open>ImageEditor\<close> never scales: the white square has the side
  50.
\<close>

theorem selection_scaled_twice_or_never:
  "handleEdit_A
     (dragA (imageLoaded_A thumbnail (Some shown_canvas)) (pointer 0 0) (pointer 50 50))
     (imageLoaded_A thumbnail (Some shown_canvas)) page =
   Some (Inr \<lparr>rq_prompt = ''add a hat'', rq_image = CanvasPNG 200 200,
     rq_mask = \<lparr>mask_width = 200, mask_height = 200, fill_x = Fin 0, fill_y = Fin 0,
       fill_width = Fin 100, fill_height = Fin 100\<rparr>,
     rq_width = None, rq_height = None\<rparr>) \<and>
   selection
     (dragB (imageLoaded_B thumbnail (Some shown_canvas)) (pointer 0 0) (pointer 50 50)) =
   Some \<lparr>sel_x = Fin 0, sel_y = Fin 0, sel_width = Fin 100, sel_height = Fin 100\<rparr> \<and>
   handleEdit_B
     (dragB (imageLoaded_B thumbnail (Some shown_canvas)) (pointer 0 0) (pointer 50 50))
     (imageLoaded_B thumbnail (Some shown_canvas)) page =
   Some (Inr \<lparr>rq_prompt = ''add a hat'', rq_image = CanvasPNG 200 200,
     rq_mask = \<lparr>mask_width = 200, mask_height = 200, fill_x = Fin 0, fill_y = Fin 0,
       fill_width = Fin 200, fill_height = Fin 200\<rparr>,
     rq_width = Some 200, rq_height = Some 200\<rparr>) \<and>
   white_pixel \<lparr>mask_width = 200, mask_height = 200, fill_x = Fin 0, fill_y = Fin 0,
       fill_width = Fin 200, fill_height = Fin 200\<rparr> i j = (i < 200 \<and> j < 200) \<and>
   handleEdit_IE ''https://replicate.delivery/t.webp''
     (dragIE (imageLoaded_IE thumbnail (Some shown_canvas)) (pointer 0 0) (pointer 50 50))
     (imageLoaded_IE thumbnail (Some shown_canvas)) page =
   Some (Inr \<lparr>rq_prompt = ''add a hat'',
     rq_image = ImageUrl ''https://replicate.delivery/t.webp'',
     rq_mask = \<lparr>mask_width = 200, mask_height = 200, fill_x = Fin 0, fill_y = Fin 0,
       fill_width = Fin 50, fill_height = Fin 50\<rparr>,
     rq_width = None, rq_height = None\<rparr>) \<and>
   white_pixel \<lparr>mask_width = 200, mask_height = 200, fill_x = Fin 0, fill_y = Fin 0,
       fill_width = Fin 50, fill_height = Fin 50\<rparr> i j = (i < 50 \<and> j < 50)"
proof -
  have all_white: "white_pixel \<lparr>mask_width = 200, mask_height = 200, fill_x = Fin 0,
      fill_y = Fin 0, fill_width = Fin 200, fill_height = Fin 200\<rparr> i j =
      (i < 200 \<and> j < 200)"
    using white_pixel_square [of 200 200 200 i j] by auto
  have small: "white_pixel \<lparr>mask_width = 200, mask_height = 200, fill_x = Fin 0,
      fill_y = Fin 0, fill_width = Fin 50, fill_height = Fin 50\<rparr> i j = (i < 50 \<and> j < 50)"
    using white_pixel_square [of 200 200 50 i j] by auto
  show ?thesis
    using drag_50_A drag_50_B_selection drag_50_B drag_50_IE all_white small
    by (intro conjI)
qed

section \<open>The size of the mask\<close>

text \<open>
  Once the load handler of an editor has run, each editor that goes on to send a request
  sends a mask of the natural size of the image, and it does send one when it has a
  selection, a prompt, its drawing contexts and, in the two \<^verbatim>\<open>ThumbnailEditor\<close>s, an
  image that loads and a mask preview that is saved.
\<close>

lemma mask_native_size_after_load:
  assumes "selection stA = Some selA" and "prompt stA \<noteq> []"
    and "selection stB = Some selB" and "prompt stB \<noteq> []"
    and "selection stI = Some selI" and "prompt stI \<noteq> []"
    and "context2d canvas" and "newContext2d d" and "imageLoads d" and "saveMaskFetch d = None"
    and "0 < naturalWidth img" and "0 < naturalHeight img"
  shows "(\<exists>rq. handleEdit_A stA (imageLoaded_A img (Some canvas)) d = Some (Inr rq) \<and>
            mask_width (rq_mask rq) = naturalWidth img \<and>
            mask_height (rq_mask rq) = naturalHeight img) \<and>
         (\<exists>rq. handleEdit_B stB (imageLoaded_B img (Some canvas)) d = Some (Inr rq) \<and>
            mask_width (rq_mask rq) = naturalWidth img \<and>
            mask_height (rq_mask rq) = naturalHeight img) \<and>
         (\<exists>rq. handleEdit_IE (src img) stI (imageLoaded_IE img (Some canvas)) d = Some (Inr rq) \<and>
            rq_image rq = ImageUrl (src img) \<and>
            mask_width (rq_mask rq) = naturalWidth img \<and>
            mask_height (rq_mask rq) = naturalHeight img)"
  using assms
  by (simp add: handleEdit_A_def handleEdit_B_def handleEdit_IE_def createMask_def
      imageLoaded_A_def imageLoaded_B_def imageLoaded_IE_def parsed_def Let_def)

text \<open>The same drag and click before the load handler has run, in each editor.\<close>

lemma before_load_IE:
  "handleEdit_IE (src thumbnail)
     (dragIE (Some shown_canvas) (pointer 0 0) (pointer 50 50)) (Some shown_canvas) page =
   Some (Inr \<lparr>rq_prompt = ''add a hat'', rq_image = ImageUrl (src thumbnail),
     rq_mask = \<lparr>mask_width = 300, mask_height = 150, fill_x = Fin 0, fill_y = Fin 0,
       fill_width = Fin 50, fill_height = Fin 50\<rparr>,
     rq_width = None, rq_height = None\<rparr>)"
  by (simp add: dragIE_def fixture_defs handler_defs js_eval Let_def)

lemma before_load_A:
  "handleEdit_A (dragA (Some shown_canvas) (pointer 0 0) (pointer 50 50))
     (Some shown_canvas) page =
   Some (Inr \<lparr>rq_prompt = ''add a hat'', rq_image = CanvasPNG 300 150,
     rq_mask = \<lparr>mask_width = 300, mask_height = 150, fill_x = Fin 0, fill_y = Fin 0,
       fill_width = Fin 150, fill_height = Fin 75\<rparr>,
     rq_width = None, rq_height = None\<rparr>)"
  by (simp add: dragA_def fixture_defs handler_defs js_eval Let_def)

lemma before_load_B:
  "handleEdit_B (dragB (Some shown_canvas) (pointer 0 0) (pointer 50 50))
     (Some shown_canvas) page =
   Some (Inl (Error ''Original image dimensions not found''))"
  by (simp add: dragB_def fixture_defs handler_defs js_eval Let_def)

text \<open>
  Claim C2 says that the mask of every selection that is submitted has the native size of
  the image, never another size. The second \<^verbatim>\<open>ThumbnailEditor\<close> keeps to it: as long as
  the original dimensions are not known it throws and sends nothing. \<^verbatim>\<open>ImageEditor\<close>
  and the first \<^verbatim>\<open>ThumbnailEditor\<close> have no such check and take the size of the
  canvas as it is. Before the load handler has run (or when the image does not load)
  the bitmap of the canvas has its default size, 300 by 150, and a drag and a click
  send a mask of that size: \<^verbatim>\<open>ImageEditor\<close> sends it together with the URL of the
  image, which is 200 by 200.
\<close>

theorem mask_sent_before_image_load:
  "handleEdit_IE (src thumbnail)
     (dragIE (Some shown_canvas) (pointer 0 0) (pointer 50 50)) (Some shown_canvas) page =
   Some (Inr \<lparr>rq_prompt = ''add a hat'', rq_image = ImageUrl (src thumbnail),
     rq_mask = \<lparr>mask_width = 300, mask_height = 150, fill_x = Fin 0, fill_y = Fin 0,
       fill_width = Fin 50, fill_height = Fin 50\<rparr>,
     rq_width = None, rq_height = None\<rparr>) \<and>
   naturalWidth thumbnail = 200 \<and> naturalHeight thumbnail = 200 \<and>
   handleEdit_A (dragA (Some shown_canvas) (pointer 0 0) (pointer 50 50))
     (Some shown_canvas) page =
   Some (Inr \<lparr>rq_prompt = ''add a hat'', rq_image = CanvasPNG 300 150,
     rq_mask = \<lparr>mask_width = 300, mask_height = 150, fill_x = Fin 0, fill_y = Fin 0,
       fill_width = Fin 150, fill_height = Fin 75\<rparr>,
     rq_width = None, rq_height = None\<rparr>) \<and>
   handleEdit_B (dragB (Some shown_canvas) (pointer 0 0) (pointer 50 50))
     (Some shown_canvas) page =
   Some (Inl (Error ''Original image dimensions not found''))"
  using before_load_IE before_load_A before_load_B
  by (simp add: thumbnail_def)

section \<open>The rectangle of the mask is not clipped\<close>

text \<open>
  Claim C3, as stated: the rectangle that paints the white region is clipped to
  \<open>[0, width] \<times> [0, height]\<close> of the image, so that \<^verbatim>\<open>fillRect\<close> never receives
  coordinates out of bounds. In the second \<^verbatim>\<open>ThumbnailEditor\<close> a drag inside the
  canvas, from \<open>(0, 0)\<close> to \<open>(80, 80)\<close> of its 100 displayed pixels, hands the width 320
  to \<^verbatim>\<open>fillRect\<close> on a mask of 200 pixels; in the first one a pointer position past the
  edge, \<open>(150, 150)\<close>, hands it the width 300.
\<close>

theorem mask_rectangle_counterexample:
  "handleEdit_B
     (dragB (imageLoaded_B thumbnail (Some shown_canvas)) (pointer 0 0) (pointer 80 80))
     (imageLoaded_B thumbnail (Some shown_canvas)) page =
   Some (Inr \<lparr>rq_prompt = ''add a hat'', rq_image = CanvasPNG 200 200,
     rq_mask = \<lparr>mask_width = 200, mask_height = 200, fill_x = Fin 0, fill_y = Fin 0,
       fill_width = Fin 320, fill_height = Fin 320\<rparr>,
     rq_width = Some 200, rq_height = Some 200\<rparr>) \<and>
   \<not> within_bounds \<lparr>mask_width = 200, mask_height = 200, fill_x = Fin 0, fill_y = Fin 0,
       fill_width = Fin 320, fill_height = Fin 320\<rparr> \<and>
   handleEdit_A
     (dragA (imageLoaded_A thumbnail (Some shown_canvas)) (pointer 0 0) (pointer 150 150))
     (imageLoaded_A thumbnail (Some shown_canvas)) page =
   Some (Inr \<lparr>rq_prompt = ''add a hat'', rq_image = CanvasPNG 200 200,
     rq_mask = \<lparr>mask_width = 200, mask_height = 200, fill_x = Fin 0, fill_y = Fin 0,
       fill_width = Fin 300, fill_height = Fin 300\<rparr>,
     rq_width = None, rq_height = None\<rparr>) \<and>
   \<not> within_bounds \<lparr>mask_width = 200, mask_height = 200, fill_x = Fin 0, fill_y = Fin 0,
       fill_width = Fin 300, fill_height = Fin 300\<rparr>"
  using drag_80_B drag_150_A by (simp add: within_bounds_def)

text \<open>
  Claim C3, amended: no editor clips the rectangle. \<^verbatim>\<open>fillRect\<close> receives the
  selection as it is in the first \<^verbatim>\<open>ThumbnailEditor\<close> and in \<^verbatim>\<open>ImageEditor\<close>, and
  the rounded products of its fields with the scale factors in the second
  \<^verbatim>\<open>ThumbnailEditor\<close>, also when they lie out of bounds; only the bitmap bounds what is
  painted: every white pixel of the mask is a pixel of the bitmap.
\<close>

theorem mask_rectangle_unclipped:
  "(handleEdit_A stA (Some canvas) d = Some (Inr rq) \<and> selection stA = Some sel \<longrightarrow>
      rq_mask rq = \<lparr>mask_width = cwidth canvas, mask_height = cheight canvas,
        fill_x = sel_x sel, fill_y = sel_y sel,
        fill_width = sel_width sel, fill_height = sel_height sel\<rparr>) \<and>
   (handleEdit_B stB (Some canvas) d = Some (Inr rq) \<and> selection stB = Some sel \<longrightarrow>
      rq_mask rq = \<lparr>mask_width = parsed (dataset_originalWidth canvas),
        mask_height = parsed (dataset_originalHeight canvas),
        fill_x = js_round (js_mul (sel_x sel)
          (js_div (of_n (parsed (dataset_originalWidth canvas))) (of_n (offsetWidth canvas)))),
        fill_y = js_round (js_mul (sel_y sel)
          (js_div (of_n (parsed (dataset_originalHeight canvas))) (of_n (offsetHeight canvas)))),
        fill_width = js_round (js_mul (sel_width sel)
          (js_div (of_n (parsed (dataset_originalWidth canvas))) (of_n (offsetWidth canvas)))),
        fill_height = js_round (js_mul (sel_height sel)
          (js_div (of_n (parsed (dataset_originalHeight canvas))) (of_n (offsetHeight canvas))))\<rparr>) \<and>
   (handleEdit_IE imageUrl stI (Some canvas) d = Some (Inr rq) \<and> selection stI = Some sel \<longrightarrow>
      rq_mask rq = \<lparr>mask_width = cwidth canvas, mask_height = cheight canvas,
        fill_x = sel_x sel, fill_y = sel_y sel,
        fill_width = sel_width sel, fill_height = sel_height sel\<rparr>) \<and>
   (white_pixel (rq_mask rq) i j \<longrightarrow>
      i < mask_width (rq_mask rq) \<and> j < mask_height (rq_mask rq))"
proof -
  have A: "rq_mask rq = \<lparr>mask_width = cwidth canvas, mask_height = cheight canvas,
        fill_x = sel_x sel, fill_y = sel_y sel,
        fill_width = sel_width sel, fill_height = sel_height sel\<rparr>"
    if "handleEdit_A stA (Some canvas) d = Some (Inr rq)" "selection stA = Some sel"
    using that by (auto simp: handleEdit_A_def Let_def split: option.splits if_splits)
  have B: "rq_mask rq = \<lparr>mask_width = parsed (dataset_originalWidth canvas),
        mask_height = parsed (dataset_originalHeight canvas),
        fill_x = js_round (js_mul (sel_x sel)
          (js_div (of_n (parsed (dataset_originalWidth canvas))) (of_n (offsetWidth canvas)))),
        fill_y = js_round (js_mul (sel_y sel)
          (js_div (of_n (parsed (dataset_originalHeight canvas))) (of_n (offsetHeight canvas)))),
        fill_width = js_round (js_mul (sel_width sel)
          (js_div (of_n (parsed (dataset_originalWidth canvas))) (of_n (offsetWidth canvas)))),
        fill_height = js_round (js_mul (sel_height sel)
          (js_div (of_n (parsed (dataset_originalHeight canvas))) (of_n (offsetHeight canvas))))\<rparr>"
    if "handleEdit_B stB (Some canvas) d = Some (Inr rq)" "selection stB = Some sel"
    using that by (auto simp: handleEdit_B_def Let_def split: option.splits if_splits)
  have I: "rq_mask rq = \<lparr>mask_width = cwidth canvas, mask_height = cheight canvas,
        fill_x = sel_x sel, fill_y = sel_y sel,
        fill_width = sel_width sel, fill_height = sel_height sel\<rparr>"
    if "handleEdit_IE imageUrl stI (Some canvas) d = Some (Inr rq)" "selection stI = Some sel"
    using that
    by (auto simp: handleEdit_IE_def createMask_def split: option.splits if_splits)
  show ?thesis using A B I white_pixel_inside by blast
qed

theorem mask_rectangle_unclipped_witness:
  "handleEdit_A (idleA\<lparr>selection := Some wide\<rparr>) (Some loaded_canvas) page =
     Some (Inr sent_A) \<and>
   rq_mask sent_A = \<lparr>mask_width = cwidth loaded_canvas, mask_height = cheight loaded_canvas,
     fill_x = sel_x wide, fill_y = sel_y wide,
     fill_width = sel_width wide, fill_height = sel_height wide\<rparr> \<and>
   handleEdit_B (idleB\<lparr>selection := Some wide\<rparr>) (Some loaded_canvas) page =
     Some (Inr sent_B) \<and>
   fill_width (rq_mask sent_B) = js_round (js_mul (sel_width wide)
     (js_div (of_n (parsed (dataset_originalWidth loaded_canvas))) (of_n (offsetWidth loaded_canvas)))) \<and>
   handleEdit_IE ''https://replicate.delivery/t.webp''
     (idleB\<lparr>selection := Some wide\<rparr>) (Some loaded_canvas) page = Some (Inr sent_IE) \<and>
   rq_mask sent_IE = \<lparr>mask_width = cwidth loaded_canvas, mask_height = cheight loaded_canvas,
     fill_x = sel_x wide, fill_y = sel_y wide,
     fill_width = sel_width wide, fill_height = sel_height wide\<rparr> \<and>
   white_pixel (rq_mask sent_B) 150 150 \<and>
   150 < mask_width (rq_mask sent_B) \<and> 150 < mask_height (rq_mask sent_B)"
proof -
  have selA: "selection (idleA\<lparr>selection := Some wide\<rparr>) = Some wide" by simp
  have selB: "selection (idleB\<lparr>selection := Some wide\<rparr>) = Some wide" by simp
  have a: "rq_mask sent_A = \<lparr>mask_width = cwidth loaded_canvas,
      mask_height = cheight loaded_canvas, fill_x = sel_x wide, fill_y = sel_y wide,
      fill_width = sel_width wide, fill_height = sel_height wide\<rparr>"
    using mask_rectangle_unclipped [where stA = "idleA\<lparr>selection := Some wide\<rparr>"
        and canvas = loaded_canvas and d = page and sel = wide and rq = sent_A] wide_A selA
    by blast
  have b: "rq_mask sent_B = \<lparr>mask_width = parsed (dataset_originalWidth loaded_canvas),
        mask_height = parsed (dataset_originalHeight loaded_canvas),
        fill_x = js_round (js_mul (sel_x wide)
          (js_div (of_n (parsed (dataset_originalWidth loaded_canvas)))
            (of_n (offsetWidth loaded_canvas)))),
        fill_y = js_round (js_mul (sel_y wide)
          (js_div (of_n (parsed (dataset_originalHeight loaded_canvas)))
            (of_n (offsetHeight loaded_canvas)))),
        fill_width = js_round (js_mul (sel_width wide)
          (js_div (of_n (parsed (dataset_originalWidth loaded_canvas)))
            (of_n (offsetWidth loaded_canvas)))),
        fill_height = js_round (js_mul (sel_height wide)
          (js_div (of_n (parsed (dataset_originalHeight loaded_canvas)))
            (of_n (offsetHeight loaded_canvas))))\<rparr> \<and>
      150 < mask_width (rq_mask sent_B) \<and> 150 < mask_height (rq_mask sent_B)"
    using mask_rectangle_unclipped [where stB = "idleB\<lparr>selection := Some wide\<rparr>"
        and canvas = loaded_canvas and d = page and sel = wide and rq = sent_B
        and i = 150 and j = 150] wide_B selB wide_B_pixel
    by blast
  have b': "fill_width (rq_mask sent_B) = js_round (js_mul (sel_width wide)
     (js_div (of_n (parsed (dataset_originalWidth loaded_canvas))) (of_n (offsetWidth loaded_canvas))))"
    using b by (metis mask.select_convs(5))
  have c: "rq_mask sent_IE = \<lparr>mask_width = cwidth loaded_canvas,
      mask_height = cheight loaded_canvas, fill_x = sel_x wide, fill_y = sel_y wide,
      fill_width = sel_width wide, fill_height = sel_height wide\<rparr>"
    using mask_rectangle_unclipped [where stI = "idleB\<lparr>selection := Some wide\<rparr>"
        and canvas = loaded_canvas and d = page and sel = wide and rq = sent_IE
        and imageUrl = "''https://replicate.delivery/t.webp''"] wide_IE selB
    by blast
  show ?thesis using wide_A a wide_B b b' wide_IE c wide_B_pixel by (intro conjI) blast+
qed

section \<open>A canvas that is not displayed\<close>

text \<open>
  Claim C4, as stated: when the displayed width or height of the canvas is 0 the
  projection fails with an error instead of dividing by zero. On a canvas of displayed
  size 0 by 0 the second \<^verbatim>\<open>ThumbnailEditor\<close> divides, paints with infinite
  coordinates and sends the request; \<^verbatim>\<open>getCanvasPoint\<close> divides and returns a point
  of infinite coordinates.
\<close>

theorem zero_display_counterexample:
  "handleEdit_B (idleB\<lparr>selection := Some \<lparr>sel_x = Fin 10, sel_y = Fin 10,
       sel_width = Fin 50, sel_height = Fin 50\<rparr>\<rparr>) (Some hidden_canvas) page =
     Some (Inr \<lparr>rq_prompt = ''add a hat'', rq_image = CanvasPNG 200 200,
       rq_mask = \<lparr>mask_width = 200, mask_height = 200, fill_x = PInf, fill_y = PInf,
         fill_width = PInf, fill_height = PInf\<rparr>,
       rq_width = Some 200, rq_height = Some 200\<rparr>) \<and>
   getCanvasPoint (Some hidden_canvas) (pointer 5 5) = \<lparr>pt_x = PInf, pt_y = PInf\<rparr>"
  by (simp add: fixture_defs handler_defs js_eval Let_def)

text \<open>
  Claim C4, amended: when the displayed width or height of the canvas is 0, the second
  \<^verbatim>\<open>ThumbnailEditor\<close> does not fail. With a selection, a prompt and the original
  dimensions known (its only check), it divides by the displayed size, hands
  \<^verbatim>\<open>fillRect\<close> coordinates that are not finite on the axis whose displayed size is 0,
  and sends the edit request, with a mask on which no pixel is white. In the same way
  \<^verbatim>\<open>getCanvasPoint\<close> divides by the size of the bounding rectangle and returns a
  coordinate that is not finite.
\<close>

theorem zero_display_size_divides:
  assumes "selection st = Some sel" and "prompt st \<noteq> []"
    and "dataset_originalWidth canvas = Some ow" and "dataset_originalHeight canvas = Some oh"
    and "0 < ow" and "0 < oh" and "newContext2d d" and "imageLoads d"
    and "offsetWidth canvas = 0 \<or> offsetHeight canvas = 0"
  shows "(\<exists>rq. handleEdit_B st (Some canvas) d = Some (Inr rq) \<and>
           (\<not> js_finite (fill_x (rq_mask rq)) \<and> \<not> js_finite (fill_width (rq_mask rq)) \<or>
            \<not> js_finite (fill_y (rq_mask rq)) \<and> \<not> js_finite (fill_height (rq_mask rq))) \<and>
           \<not> white_pixel (rq_mask rq) i j) \<and>
         (rect_width canvas = Fin 0 \<longrightarrow>
            \<not> js_finite (pt_x (getCanvasPoint (Some canvas) e))) \<and>
         (rect_height canvas = Fin 0 \<longrightarrow>
            \<not> js_finite (pt_y (getCanvasPoint (Some canvas) e)))"
proof -
  define sx where "sx = js_div (of_n ow) (of_n (offsetWidth canvas))"
  define sy where "sy = js_div (of_n oh) (of_n (offsetHeight canvas))"
  define m where "m = \<lparr>mask_width = ow, mask_height = oh,
      fill_x = js_round (js_mul (sel_x sel) sx), fill_y = js_round (js_mul (sel_y sel) sy),
      fill_width = js_round (js_mul (sel_width sel) sx),
      fill_height = js_round (js_mul (sel_height sel) sy)\<rparr>"
  have sent: "handleEdit_B st (Some canvas) d =
      Some (Inr \<lparr>rq_prompt = prompt st, rq_image = CanvasPNG ow oh, rq_mask = m,
        rq_width = Some ow, rq_height = Some oh\<rparr>)"
    using assms(1-8) by (simp add: handleEdit_B_def parsed_def Let_def m_def sx_def sy_def)
  have x: "\<not> js_finite (fill_x m) \<and> \<not> js_finite (fill_width m)"
    if "offsetWidth canvas = 0"
  proof -
    have "sx = PInf" using that assms(5) by (simp add: sx_def of_n_def)
    then show ?thesis by (simp add: m_def js_mul_PInf_not_finite)
  qed
  have y: "\<not> js_finite (fill_y m) \<and> \<not> js_finite (fill_height m)"
    if "offsetHeight canvas = 0"
  proof -
    have "sy = PInf" using that assms(6) by (simp add: sy_def of_n_def)
    then show ?thesis by (simp add: m_def js_mul_PInf_not_finite)
  qed
  have "\<not> white_pixel m i j"
    using x y assms(9) white_pixel_not_finite_x [of m i j] white_pixel_not_finite_y [of m i j]
    by auto
  then have edit: "\<exists>rq. handleEdit_B st (Some canvas) d = Some (Inr rq) \<and>
      (\<not> js_finite (fill_x (rq_mask rq)) \<and> \<not> js_finite (fill_width (rq_mask rq)) \<or>
       \<not> js_finite (fill_y (rq_mask rq)) \<and> \<not> js_finite (fill_height (rq_mask rq))) \<and>
      \<not> white_pixel (rq_mask rq) i j"
    using sent x y assms(9) by auto
  have px: "\<not> js_finite (pt_x (getCanvasPoint (Some canvas) e))"
    if "rect_width canvas = Fin 0"
    using that by (simp add: getCanvasPoint_def Let_def js_mul_not_finite js_div_zero_not_finite)
  have py: "\<not> js_finite (pt_y (getCanvasPoint (Some canvas) e))"
    if "rect_height canvas = Fin 0"
    using that by (simp add: getCanvasPoint_def Let_def js_mul_not_finite js_div_zero_not_finite)
  show ?thesis using edit px py by blast
qed

theorem zero_display_size_divides_witness:
  "offsetWidth hidden_canvas = 0 \<and> rect_width hidden_canvas = Fin 0 \<and>
   (\<exists>rq. handleEdit_B (idleB\<lparr>selection := Some wide\<rparr>) (Some hidden_canvas) page =
          Some (Inr rq) \<and>
      (\<not> js_finite (fill_x (rq_mask rq)) \<and> \<not> js_finite (fill_width (rq_mask rq)) \<or>
       \<not> js_finite (fill_y (rq_mask rq)) \<and> \<not> js_finite (fill_height (rq_mask rq))) \<and>
      \<not> white_pixel (rq_mask rq) 10 10) \<and>
   \<not> js_finite (pt_x (getCanvasPoint (Some hidden_canvas) (pointer 5 5))) \<and>
   \<not> js_finite (pt_y (getCanvasPoint (Some hidden_canvas) (pointer 5 5)))"
  using zero_display_size_divides [where st = "idleB\<lparr>selection := Some wide\<rparr>"
      and sel = wide and canvas = hidden_canvas and ow = 200 and oh = 200 and d = page
      and i = 10 and j = 10 and e = "pointer 5 5"]
  by (simp add: fixture_defs)

section \<open>The snapper returns sizes of the lattice\<close>

text \<open>
  Claim C5. For every pair \<open>(w, h)\<close> with \<open>w > 0\<close> and \<open>h > 0\<close>,
  \<^verbatim>\<open>getNearestValidSize(w, h)\<close> returns a pair, and both its width and its height are
  members of \<^verbatim>\<open>VALID_SIZES\<close>, the lattice 64, 128, ..., 1024.
\<close>

theorem snap_in_lattice:
  assumes "js_lt (Fin 0) w" and "js_lt (Fin 0) h"
  shows "\<exists>d. getNearestValidSize w h = Inr d \<and>
             width d \<in> set VALID_SIZES \<and> height d \<in> set VALID_SIZES"
  by (simp add: getNearestValidSize_eq widthFirst_def heightFirst_def nearestWidth_def
      nearestHeight_def nearestWidthFromHeight_def nearest_in_VALID_SIZES)

theorem snap_in_lattice_witness:
  "js_lt (Fin 0) (Fin 1000) \<and> js_lt (Fin 0) (Fin 500) \<and>
   (\<exists>d. getNearestValidSize (Fin 1000) (Fin 500) = Inr d \<and>
        width d \<in> set VALID_SIZES \<and> height d \<in> set VALID_SIZES)"
  using snap_in_lattice [of "Fin 1000" "Fin 500"] by simp

section \<open>The height-first candidate\<close>

text \<open>
  Claim C6, as stated: the height-first candidate takes \<open>nearestHeight\<close> as the lattice
  value nearest to the original input height, derives
  \<open>round (nearestHeight * width / height)\<close> back from it and snaps that. For the input
  \<open>(100, 275)\<close> the source snaps the width-derived height 352 to 320, where the lattice
  value nearest to 275 is 256, and the two candidates differ.
\<close>

theorem height_first_counterexample:
  "nearestHeight (Fin 100) (Fin 275) = Fin 320 \<and>
   nearest (Fin 275) = Fin 256 \<and>
   heightFirst (Fin 100) (Fin 275) = \<lparr>width = Fin 128, height = Fin 320\<rparr> \<and>
   heightFirst_spec (Fin 100) (Fin 275) = \<lparr>width = Fin 64, height = Fin 256\<rparr>"
  by (simp add: heightFirst_def at_100_275_nearestHeight at_100_275_nearestWidthFromHeight
      nearest_275 at_100_275_heightFirst_spec)

text \<open>
  The reduction over the lattice returns the lattice value nearest to a finite target
  (exact arithmetic; the code computes the same distances when the target is an integer
  of magnitude at most \<open>2 ^ 52\<close>, as the results of \<^verbatim>\<open>Math.round\<close> in range are).
\<close>

lemma closer_Fin:
  "closer (Fin t) (Fin x) (Fin a) = (if \<bar>a - t\<bar> < \<bar>x - t\<bar> then Fin a else Fin x)"
  by (simp add: closer_def js_sub_def)

lemma foldl_closer_min:
  assumes "sorted (x # xs)"
  shows "\<exists>n. foldl (closer (Fin t)) (Fin x) (map Fin xs) = Fin n \<and> n \<in> set (x # xs) \<and>
           (\<forall>y\<in>set (x # xs). \<bar>n - t\<bar> \<le> \<bar>y - t\<bar> \<and> (\<bar>y - t\<bar> = \<bar>n - t\<bar> \<longrightarrow> n \<le> y))"
  using assms
proof (induction xs arbitrary: x)
  case Nil
  then show ?case by simp
next
  case (Cons a xs)
  define p where "p = (if \<bar>a - t\<bar> < \<bar>x - t\<bar> then a else x)"
  have step: "foldl (closer (Fin t)) (Fin x) (map Fin (a # xs)) =
      foldl (closer (Fin t)) (Fin p) (map Fin xs)"
    by (simp add: closer_Fin p_def)
  have xa: "x \<le> a" and xs: "\<forall>y\<in>set xs. a \<le> y" "\<forall>y\<in>set xs. x \<le> y" and sxs: "sorted xs"
    using Cons.prems by auto
  have "sorted (p # xs)" using xs sxs by (simp add: p_def)
  from Cons.IH [OF this] obtain n where n:
    "foldl (closer (Fin t)) (Fin p) (map Fin xs) = Fin n" "n \<in> set (p # xs)"
    "\<forall>y\<in>set (p # xs). \<bar>n - t\<bar> \<le> \<bar>y - t\<bar> \<and> (\<bar>y - t\<bar> = \<bar>n - t\<bar> \<longrightarrow> n \<le> y)"
    by blast
  have np: "\<bar>n - t\<bar> \<le> \<bar>p - t\<bar>" "\<bar>p - t\<bar> = \<bar>n - t\<bar> \<longrightarrow> n \<le> p"
    using n(3) by auto
  have mem: "n \<in> set (x # a # xs)" using n(2) by (auto simp: p_def split: if_splits)
  have px: "\<bar>p - t\<bar> \<le> \<bar>x - t\<bar>" "\<bar>p - t\<bar> \<le> \<bar>a - t\<bar>" by (auto simp: p_def)
  have x_ok: "\<bar>n - t\<bar> \<le> \<bar>x - t\<bar> \<and> (\<bar>x - t\<bar> = \<bar>n - t\<bar> \<longrightarrow> n \<le> x)"
    using np px by (auto simp: p_def split: if_splits)
  have a_ok: "\<bar>n - t\<bar> \<le> \<bar>a - t\<bar> \<and> (\<bar>a - t\<bar> = \<bar>n - t\<bar> \<longrightarrow> n \<le> a)"
    using np px xa by (auto simp: p_def split: if_splits)
  have rest: "\<forall>y\<in>set xs. \<bar>n - t\<bar> \<le> \<bar>y - t\<bar> \<and> (\<bar>y - t\<bar> = \<bar>n - t\<bar> \<longrightarrow> n \<le> y)"
    using n(3) by simp
  show ?case
    using step n(1) mem x_ok a_ok rest by auto
qed

lemma nearest_is_nearest: "nearest_of_lattice (nearest (Fin s)) s"
proof -
  have "nearest (Fin s) = foldl (closer (Fin s)) (Fin 64)
      (map Fin [128, 192, 256, 320, 384, 448, 512, 576, 640, 704, 768, 832, 896, 960, 1024])"
    by (simp add: nearest_def)
  moreover have "sorted ((64::rat) #
      [128, 192, 256, 320, 384, 448, 512, 576, 640, 704, 768, 832, 896, 960, 1024])"
    by simp
  ultimately obtain n where n: "nearest (Fin s) = Fin n"
    "n \<in> set (64 # [128, 192, 256, 320, 384, 448, 512, 576, 640, 704, 768, 832, 896, 960, 1024])"
    "\<forall>y\<in>set (64 # [128, 192, 256, 320, 384, 448, 512, 576, 640, 704, 768, 832, 896, 960,
        1024]). \<bar>n - s\<bar> \<le> \<bar>y - s\<bar> \<and> (\<bar>y - s\<bar> = \<bar>n - s\<bar> \<longrightarrow> n \<le> y)"
    using foldl_closer_min [of 64 _ s] by metis
  have "Fin n \<in> set VALID_SIZES" using n(2) by (auto simp: VALID_SIZES_def)
  then show ?thesis
    using n(3) by (simp add: nearest_of_lattice_def n(1) VALID_SIZES_def)
qed

text \<open>
  Claim C6, amended: the height-first candidate takes \<open>nearestHeight\<close> as the result of
  the lattice reduction on the width-derived scaled height
  \<open>round (nearestWidth * (height / width))\<close>, not on the original height; it derives
  \<open>heightBasedWidth = round (nearestHeight / (height / width))\<close>, a division by the
  aspect ratio, and takes the result of the reduction on that as its width. When the
  scaled height, or the width derived from the height, is finite and of magnitude at
  most \<open>2 ^ 52\<close>, the result of the reduction is the lattice value nearest to it, the
  smaller one of two that are equally near. The candidate is the pair the function
  returns whenever the width-first error is not strictly below the height-first error.
\<close>

theorem height_first_from_scaled_height:
  "heightFirst w h =
     (let ratio = js_div h w;
          snappedHeight = nearest (js_round (js_mul (nearest w) ratio));
          widthFromHeight = js_round (js_div snappedHeight ratio)
      in \<lparr>width = nearest widthFromHeight, height = snappedHeight\<rparr>) \<and>
   (scaledHeight w h = Fin s \<and> \<bar>s\<bar> \<le> 2 ^ 52 \<longrightarrow>
      nearest_of_lattice (nearestHeight w h) s) \<and>
   (heightBasedWidth w h = Fin v \<and> \<bar>v\<bar> \<le> 2 ^ 52 \<longrightarrow>
      nearest_of_lattice (nearestWidthFromHeight w h) v) \<and>
   (\<not> js_lt (widthFirstError w h) (heightFirstError w h) \<longrightarrow>
      getNearestValidSize w h = Inr (heightFirst w h))"
proof -
  have built: "heightFirst w h =
     (let ratio = js_div h w;
          snappedHeight = nearest (js_round (js_mul (nearest w) ratio));
          widthFromHeight = js_round (js_div snappedHeight ratio)
      in \<lparr>width = nearest widthFromHeight, height = snappedHeight\<rparr>)"
    by (simp add: heightFirst_def nearestWidthFromHeight_def heightBasedWidth_def
        nearestHeight_def scaledHeight_def nearestWidth_def aspectRatio_def Let_def)
  have hgt: "nearest_of_lattice (nearestHeight w h) s" if "scaledHeight w h = Fin s"
    using that nearest_is_nearest [of s] by (simp add: nearestHeight_def)
  have wid: "nearest_of_lattice (nearestWidthFromHeight w h) v" if "heightBasedWidth w h = Fin v"
    using that nearest_is_nearest [of v] by (simp add: nearestWidthFromHeight_def)
  have ret: "getNearestValidSize w h = Inr (heightFirst w h)"
    if "\<not> js_lt (widthFirstError w h) (heightFirstError w h)"
    using that by (simp add: getNearestValidSize_eq)
  show ?thesis using built hgt wid ret by blast
qed

theorem height_first_from_scaled_height_witness:
  "scaledHeight (Fin 1024) (Fin 2048) = Fin 2048 \<and> \<bar>2048 :: rat\<bar> \<le> 2 ^ 52 \<and>
   nearestHeight (Fin 1024) (Fin 2048) = Fin 1024 \<and>
   nearest_of_lattice (nearestHeight (Fin 1024) (Fin 2048)) 2048 \<and>
   heightBasedWidth (Fin 1024) (Fin 2048) = Fin 512 \<and> \<bar>512 :: rat\<bar> \<le> 2 ^ 52 \<and>
   nearest_of_lattice (nearestWidthFromHeight (Fin 1024) (Fin 2048)) 512 \<and>
   \<not> js_lt (widthFirstError (Fin 1024) (Fin 2048)) (heightFirstError (Fin 1024) (Fin 2048)) \<and>
   getNearestValidSize (Fin 1024) (Fin 2048) = Inr (heightFirst (Fin 1024) (Fin 2048)) \<and>
   heightFirst (Fin 1024) (Fin 2048) = \<lparr>width = Fin 512, height = Fin 1024\<rparr>"
proof -
  have small: "\<bar>2048 :: rat\<bar> \<le> 2 ^ 52" "\<bar>512 :: rat\<bar> \<le> 2 ^ 52" by simp_all
  have cmp: "\<not> js_lt (widthFirstError (Fin 1024) (Fin 2048))
      (heightFirstError (Fin 1024) (Fin 2048))"
    by (simp add: at_1024_2048_widthFirstError at_1024_2048_heightFirstError)
  have pair: "heightFirst (Fin 1024) (Fin 2048) = \<lparr>width = Fin 512, height = Fin 1024\<rparr>"
    by (simp add: heightFirst_def at_1024_2048_nearestHeight
        at_1024_2048_nearestWidthFromHeight)
  note inst = height_first_from_scaled_height [of "Fin 1024" "Fin 2048" 2048 512]
  have a: "nearest_of_lattice (nearestHeight (Fin 1024) (Fin 2048)) 2048"
    using inst at_1024_2048_scaledHeight small by blast
  have b: "nearest_of_lattice (nearestWidthFromHeight (Fin 1024) (Fin 2048)) 512"
    using inst at_1024_2048_heightBasedWidth small by blast
  have c: "getNearestValidSize (Fin 1024) (Fin 2048) = Inr (heightFirst (Fin 1024) (Fin 2048))"
    using inst cmp by blast
  show ?thesis
    using at_1024_2048_scaledHeight small at_1024_2048_nearestHeight a
      at_1024_2048_heightBasedWidth b cmp c pair
    by (intro conjI)
qed

section \<open>The choice between the two candidates\<close>

text \<open>
  Sizes of the lattice lie between 64 and 1024, and two of them that differ are at least
  64 apart; \<^verbatim>\<open>Math.round\<close> moves a number by at most a half.
\<close>

lemma lattice_bounds: "Fin x \<in> set VALID_SIZES \<Longrightarrow> 64 \<le> x \<and> x \<le> 1024"
  by (auto simp: VALID_SIZES_def)

lemma lattice_gap:
  "Fin x \<in> set VALID_SIZES \<Longrightarrow> Fin y \<in> set VALID_SIZES \<Longrightarrow> x \<noteq> y \<Longrightarrow> 64 \<le> \<bar>x - y\<bar>"
  by (auto simp: VALID_SIZES_def)

lemma nearest_lattice: "\<exists>x. nearest t = Fin x \<and> Fin x \<in> set VALID_SIZES"
  using nearest_in_VALID_SIZES [of t] by (auto simp: VALID_SIZES_def)

lemma round_close: "\<bar>rat_of_int \<lfloor>t + 1 / 2\<rfloor> - t\<bar> \<le> 1 / 2"
  by linarith

text \<open>
  How far the choice of the function follows the rule "the pair with the lower
  aspect-ratio error, the width-first pair when the errors are equal", for positive
  finite inputs: when the errors of the two pairs are equal the function returns the
  width-first pair, and it returns another pair than the width-first one only when that
  is the height-first pair and its error is strictly lower. (The width-first error of
  the source is at most \<open>1 / (2 * nearestWidth)\<close>, and the ratios of two pairs that
  differ are at least \<open>4 / nearestWidth\<close> apart. The strict comparison of the source
  sends equal computed errors to the height-first pair, as at \<open>(1024, 2048)\<close>, where
  both are 0; the errors of the two pairs themselves are then 1 and 0.)
\<close>

lemma snap_choice:
  assumes w: "0 < w" and h: "0 < h"
  shows "(aspectError (widthFirst (Fin w) (Fin h)) (Fin w) (Fin h) =
          aspectError (heightFirst (Fin w) (Fin h)) (Fin w) (Fin h) \<longrightarrow>
            getNearestValidSize (Fin w) (Fin h) = Inr (widthFirst (Fin w) (Fin h))) \<and>
         (getNearestValidSize (Fin w) (Fin h) \<noteq> Inr (widthFirst (Fin w) (Fin h)) \<longrightarrow>
            getNearestValidSize (Fin w) (Fin h) = Inr (heightFirst (Fin w) (Fin h)) \<and>
            js_lt (aspectError (heightFirst (Fin w) (Fin h)) (Fin w) (Fin h))
              (aspectError (widthFirst (Fin w) (Fin h)) (Fin w) (Fin h)))"
proof -
  obtain nw where nw: "nearestWidth (Fin w) = Fin nw" "Fin nw \<in> set VALID_SIZES"
    unfolding nearestWidth_def using nearest_lattice by blast
  obtain nh where nh: "nearestHeight (Fin w) (Fin h) = Fin nh" "Fin nh \<in> set VALID_SIZES"
    unfolding nearestHeight_def using nearest_lattice by blast
  obtain nv where nv: "nearestWidthFromHeight (Fin w) (Fin h) = Fin nv"
      "Fin nv \<in> set VALID_SIZES"
    unfolding nearestWidthFromHeight_def using nearest_lattice by blast
  define a where "a = h / w"
  define sh where "sh = rat_of_int \<lfloor>nw * a + 1 / 2\<rfloor>"
  have bnw: "64 \<le> nw" "nw \<le> 1024" using lattice_bounds [OF nw(2)] by auto
  have bnh: "64 \<le> nh" "nh \<le> 1024" using lattice_bounds [OF nh(2)] by auto
  have bnv: "64 \<le> nv" "nv \<le> 1024" using lattice_bounds [OF nv(2)] by auto
  have ratio: "aspectRatio (Fin w) (Fin h) = Fin a"
    using w by (simp add: aspectRatio_def a_def)
  have scaled: "scaledHeight (Fin w) (Fin h) = Fin sh"
    by (simp add: scaledHeight_def nw ratio sh_def)
  have wfe: "widthFirstError (Fin w) (Fin h) = Fin \<bar>sh / nw - a\<bar>"
    using bnw by (simp add: widthFirstError_def scaled nw ratio js_sub_def)
  have hfe: "heightFirstError (Fin w) (Fin h) = Fin \<bar>nh / nv - a\<bar>"
    using bnv by (simp add: heightFirstError_def nh nv ratio js_sub_def)
  have ewf: "aspectError (widthFirst (Fin w) (Fin h)) (Fin w) (Fin h) = Fin \<bar>nh / nw - a\<bar>"
    using bnw w by (simp add: aspectError_def widthFirst_def nw nh js_sub_def a_def)
  have ehf: "aspectError (heightFirst (Fin w) (Fin h)) (Fin w) (Fin h) = Fin \<bar>nh / nv - a\<bar>"
    using bnv w by (simp add: aspectError_def heightFirst_def nv nh js_sub_def a_def)
  show ?thesis
  proof (cases "nv = nw")
    case True
    then have "heightFirst (Fin w) (Fin h) = widthFirst (Fin w) (Fin h)"
      by (simp add: heightFirst_def widthFirst_def nv nw)
    then show ?thesis by (simp add: getNearestValidSize_eq)
  next
    case False
    have gap: "64 \<le> \<bar>nv - nw\<bar>"
      using lattice_gap [OF nv(2) nw(2) False] .
    have diff: "nh / nw - nh / nv = nh * (nv - nw) / (nw * nv)"
      using bnw bnv by (simp add: field_simps)
    have "4 * nv \<le> nh * \<bar>nv - nw\<bar>"
    proof -
      have "4 * nv \<le> 64 * 64" using bnv by simp
      also have "\<dots> \<le> nh * \<bar>nv - nw\<bar>"
        using bnh gap by (intro mult_mono) auto
      finally show ?thesis .
    qed
    then have "4 / nw \<le> nh * \<bar>nv - nw\<bar> / (nw * nv)"
      using bnw bnv by (simp add: field_simps)
    also have "\<dots> = \<bar>nh / nw - nh / nv\<bar>"
      using bnw bnv bnh by (simp add: diff abs_mult)
    finally have far: "4 / nw \<le> \<bar>nh / nw - nh / nv\<bar>" .
    have close: "\<bar>sh - nw * a\<bar> \<le> 1 / 2"
      unfolding sh_def by (rule round_close)
    have "\<bar>sh / nw - a\<bar> = \<bar>sh - nw * a\<bar> / nw"
    proof -
      have "sh / nw - a = (sh - nw * a) / nw" using bnw by (simp add: field_simps)
      then show ?thesis using bnw by (simp add: abs_divide)
    qed
    also have "\<dots> \<le> (1 / 2) / nw"
      using close bnw by (intro divide_right_mono) auto
    finally have near: "\<bar>sh / nw - a\<bar> \<le> (1 / 2) / nw" .
    have pos: "0 < 1 / nw" using bnw by simp
    have quarter: "(1 / 2) / nw = (1 / 2) * (1 / nw)" "4 / nw = 4 * (1 / nw)"
      by simp_all
    have tie: "\<bar>sh / nw - a\<bar> < \<bar>nh / nv - a\<bar>"
      if "\<bar>nh / nw - a\<bar> = \<bar>nh / nv - a\<bar>"
      using that far near pos unfolding quarter by linarith
    have better: "\<bar>nh / nv - a\<bar> < \<bar>nh / nw - a\<bar>"
      if "\<not> \<bar>sh / nw - a\<bar> < \<bar>nh / nv - a\<bar>"
      using that far near pos unfolding quarter by linarith
    show ?thesis
      using tie better by (auto simp: getNearestValidSize_eq wfe hfe ewf ehf)
  qed
qed

text \<open>
  Claim C7 says that the function returns the candidate pair with the lower aspect-ratio
  error \<open>|candidateHeight / candidateWidth - height / width|\<close>, the width-first pair
  when the errors are equal. For the input \<open>(1024, 2000)\<close> the function returns the
  width-first pair \<open>(1024, 1024)\<close>, whose error is \<open>61 / 64\<close>, although the
  height-first pair \<open>(512, 1024)\<close> has the error \<open>3 / 64\<close>: the width-first error
  of the source is computed from \<open>scaledHeight\<close>, the height before it is snapped, and
  not from the height of the pair that is returned.
\<close>

theorem snap_returns_higher_error_pair:
  "getNearestValidSize (Fin 1024) (Fin 2000) = Inr (widthFirst (Fin 1024) (Fin 2000)) \<and>
   widthFirst (Fin 1024) (Fin 2000) = \<lparr>width = Fin 1024, height = Fin 1024\<rparr> \<and>
   heightFirst (Fin 1024) (Fin 2000) = \<lparr>width = Fin 512, height = Fin 1024\<rparr> \<and>
   aspectError (widthFirst (Fin 1024) (Fin 2000)) (Fin 1024) (Fin 2000) = Fin (61 / 64) \<and>
   aspectError (heightFirst (Fin 1024) (Fin 2000)) (Fin 1024) (Fin 2000) = Fin (3 / 64)"
  by (simp add: getNearestValidSize_eq at_1024_2000_widthFirstError
      at_1024_2000_heightFirstError widthFirst_def heightFirst_def nearestWidth_1024
      at_1024_2000_nearestHeight at_1024_2000_nearestWidthFromHeight aspectError_def js_eval)

section \<open>The snapper at a zero dimension\<close>

text \<open>
  Claim C8, as stated: called with a zero width or height the snapper fails with an
  error. For the input \<open>(0, 100)\<close> it returns the pair \<open>(64, 64)\<close>.
\<close>

theorem snap_zero_width_counterexample:
  "getNearestValidSize (Fin 0) (Fin 100) = Inr \<lparr>width = Fin 64, height = Fin 64\<rparr>"
  by (simp add: getNearestValidSize_eq at_0_100_widthFirstError widthFirst_def heightFirst_def
      at_0_100_nearestHeight at_0_100_nearestWidthFromHeight)

text \<open>
  Claim C8, amended: called with a zero width or height the snapper throws nothing. The
  division by zero is carried out (for a zero width the aspect ratio is not finite;
  for a zero height and a width that is not zero the width derived from the height is
  not finite), and the function still returns a pair of lattice sizes.
\<close>

theorem snap_zero_dimension_returns:
  assumes "w = Fin 0 \<or> h = Fin 0"
  shows "(\<exists>d. getNearestValidSize w h = Inr d \<and>
              width d \<in> set VALID_SIZES \<and> height d \<in> set VALID_SIZES) \<and>
         \<not> js_finite (if w = Fin 0 then aspectRatio w h else heightBasedWidth w h)"
proof -
  have lattice: "\<exists>d. getNearestValidSize w h = Inr d \<and>
      width d \<in> set VALID_SIZES \<and> height d \<in> set VALID_SIZES"
    by (simp add: getNearestValidSize_eq widthFirst_def heightFirst_def nearestWidth_def
        nearestHeight_def nearestWidthFromHeight_def nearest_in_VALID_SIZES)
  have ratio: "\<not> js_finite (aspectRatio w h)" if "w = Fin 0"
    using that by (cases h) (simp_all add: aspectRatio_def)
  have derived: "\<not> js_finite (heightBasedWidth w h)" if "w \<noteq> Fin 0"
  proof -
    from that assms have h: "h = Fin 0" by simp
    obtain k where k: "nearestHeight w h = Fin k" "0 < k"
      unfolding nearestHeight_def using nearest_Fin by blast
    have "aspectRatio w h = Fin 0 \<or> aspectRatio w h = NaN"
      using that h by (cases w) (simp_all add: aspectRatio_def)
    then show ?thesis
      using k by (auto simp: heightBasedWidth_def)
  qed
  show ?thesis using lattice ratio derived by simp
qed

theorem snap_zero_dimension_returns_witness:
  "(\<exists>d. getNearestValidSize (Fin 0) (Fin 100) = Inr d \<and>
        width d \<in> set VALID_SIZES \<and> height d \<in> set VALID_SIZES) \<and>
   \<not> js_finite (aspectRatio (Fin 0) (Fin 100)) \<and>
   (\<exists>d. getNearestValidSize (Fin 100) (Fin 0) = Inr d \<and>
        width d \<in> set VALID_SIZES \<and> height d \<in> set VALID_SIZES) \<and>
   \<not> js_finite (heightBasedWidth (Fin 100) (Fin 0))"
  using snap_zero_dimension_returns [of "Fin 0" "Fin 100"]
    snap_zero_dimension_returns [of "Fin 100" "Fin 0"]
  by simp

section \<open>The polling loop of the edit route\<close>

lemma pollLoop_exhausted: "pollLoop get maxAttempts = Inr None"
  by (simp add: pollLoop.simps [of get maxAttempts])

lemma pollLoop_pending:
  assumes "attempts < maxAttempts" and "get attempts = Inr r" and "pending r"
  shows "pollLoop get attempts = pollLoop get (Suc attempts)"
  using assms by (simp add: pollLoop.simps [of get attempts] pending_def)

lemma pollLoop_succeeded:
  assumes "attempts < maxAttempts" and "get attempts = Inr r"
    and "\<not> truthy (res_error r)" and "res_status r = ''succeeded''"
  shows "pollLoop get attempts = Inr (first_output (res_output r))"
  using assms by (simp add: pollLoop.simps [of get attempts])

lemma pollLoop_skip:
  assumes "\<forall>k. a \<le> k \<and> k < n \<longrightarrow> (\<exists>r. get k = Inr r \<and> pending r)"
    and "a \<le> n" and "n \<le> maxAttempts"
  shows "pollLoop get a = pollLoop get n"
  using assms
proof (induction "n - a" arbitrary: a)
  case 0
  then show ?case by simp
next
  case (Suc d)
  then have lt: "a < n" by linarith
  then obtain r where r: "get a = Inr r" "pending r"
    using Suc.prems(1) by blast
  have "pollLoop get a = pollLoop get (Suc a)"
    using lt Suc.prems(3) r by (intro pollLoop_pending) auto
  also have "\<dots> = pollLoop get n"
    using Suc.hyps Suc.prems lt by (intro Suc.hyps(1)) auto
  finally show ?case .
qed

lemma pollLoop_error:
  assumes "attempts < maxAttempts" and "get attempts = Inr r"
    and "res_error r = Some err" and "err \<noteq> []"
  shows "pollLoop get attempts = Inl (Error (''Replicate error: '' @ err))"
  using assms by (simp add: pollLoop.simps [of get attempts])

text \<open>
  Claim C9, as stated: when the prediction reaches the status \<^verbatim>\<open>succeeded\<close> on a poll
  before the bound, the handler answers 200 with the reported output. A prediction that
  succeeds on the first poll and reports no output (\<^verbatim>\<open>null\<close>) is answered with 500 and
  the message of the timeout: the check \<^verbatim>\<open>!resultImageUrl\<close> after the loop does not
  tell it from a loop that ran out. A prediction that succeeds on the first poll with an
  output and also carries an error payload is answered with 500 and the payload: the
  loop tests \<^verbatim>\<open>result.error\<close> before the status.
\<close>

theorem edit_poll_counterexample:
  "POST service_succeeds_without_output (Inr request_body) =
     \<lparr>status = 500, body = ErrorBody ''Timeout waiting for image generation''\<rparr> \<and>
   POST service_succeeds_with_error (Inr request_body) =
     \<lparr>status = 500, body = ErrorBody ''Replicate error: partial''\<rparr>"
proof -
  have "pollLoop (predictions_get service_succeeds_without_output ''p1'') 0 = Inr None"
    by (simp add: pollLoop.simps [of _ 0] service_succeeds_without_output_def maxAttempts_def)
  moreover have "pollLoop (predictions_get service_succeeds_with_error ''p1'') 0 =
      Inl (Error ''Replicate error: partial'')"
    by (simp add: pollLoop.simps [of _ 0] service_succeeds_with_error_def maxAttempts_def)
  ultimately show ?thesis
    by (simp add: POST_def POST_try_def service_succeeds_without_output_def
        service_succeeds_with_error_def request_body_def)
qed

text \<open>
  Claim C9, amended. For a request with its three fields, once the prediction is created,
  and with \<open>n\<close> polls that neither end the loop nor throw: if the next poll (\<open>n < 60\<close>,
  so it is one of the first sixty) has no error payload and the status \<^verbatim>\<open>succeeded\<close>,
  the handler answers 200 with the reported output (the output itself, or the first
  element of an array) when that is a non-empty string, and 500 with the message
  \<^verbatim>\<open>Timeout waiting for image generation\<close> when it is empty or missing; if that poll
  carries an error payload, the handler answers 500 with
  \<^verbatim>\<open>Replicate error: \<close> and the payload, whatever the status; and if sixty polls
  pass in this way (\<open>n = 60\<close>) the handler answers 500 with the message of the timeout.
\<close>

theorem edit_poll_outcomes:
  assumes "req_json = Inr b"
    and "truthy (body_prompt b)" and "truthy (body_image b)" and "truthy (body_mask b)"
    and "predictions_create rep
           \<lparr>in_prompt = the (body_prompt b) @ '', highly detailed, perfect quality, 4k'',
            in_image = the (body_image b), in_mask = the (body_mask b)\<rparr> = Inr pid"
    and "\<forall>k<n. \<exists>r. predictions_get rep pid k = Inr r \<and> pending r"
  shows "(n < maxAttempts \<and> predictions_get rep pid n = Inr r \<and> \<not> truthy (res_error r) \<and>
          res_status r = ''succeeded'' \<and> first_output (res_output r) = Some url \<and> url \<noteq> []
          \<longrightarrow> POST rep req_json = \<lparr>status = 200, body = ImageUrlBody url\<rparr>) \<and>
         (n < maxAttempts \<and> predictions_get rep pid n = Inr r \<and> \<not> truthy (res_error r) \<and>
          res_status r = ''succeeded'' \<and> \<not> truthy (first_output (res_output r))
          \<longrightarrow> POST rep req_json =
              \<lparr>status = 500, body = ErrorBody ''Timeout waiting for image generation''\<rparr>) \<and>
         (n < maxAttempts \<and> predictions_get rep pid n = Inr r \<and> res_error r = Some err \<and>
          err \<noteq> []
          \<longrightarrow> POST rep req_json =
              \<lparr>status = 500, body = ErrorBody (''Replicate error: '' @ err)\<rparr>) \<and>
         (n = maxAttempts
          \<longrightarrow> POST rep req_json =
              \<lparr>status = 500, body = ErrorBody ''Timeout waiting for image generation''\<rparr>)"
proof -
  have skip: "pollLoop (predictions_get rep pid) 0 = pollLoop (predictions_get rep pid) n"
    if "n \<le> maxAttempts"
    using assms(6) that by (intro pollLoop_skip) auto
  have post: "POST rep req_json =
      (case pollLoop (predictions_get rep pid) 0 of
         Inl e \<Rightarrow> \<lparr>status = 500, body = ErrorBody (case e of Error message \<Rightarrow> message
                             | NonError \<Rightarrow> ''Failed to process image'')\<rparr>
       | Inr resultImageUrl \<Rightarrow>
           if \<not> truthy resultImageUrl
           then \<lparr>status = 500, body = ErrorBody ''Timeout waiting for image generation''\<rparr>
           else \<lparr>status = 200, body = ImageUrlBody (the resultImageUrl)\<rparr>)"
    using assms(1-5) by (simp add: POST_def POST_try_def split: sum.splits)
  have 1: "POST rep req_json = \<lparr>status = 200, body = ImageUrlBody url\<rparr>"
    if "n < maxAttempts" "predictions_get rep pid n = Inr r" "\<not> truthy (res_error r)"
      "res_status r = ''succeeded''" "first_output (res_output r) = Some url" "url \<noteq> []"
  proof -
    have "pollLoop (predictions_get rep pid) 0 = Inr (Some url)"
      using skip that pollLoop_succeeded [of n "predictions_get rep pid" r] by simp
    then show ?thesis using that(6) by (simp add: post)
  qed
  have 2: "POST rep req_json =
      \<lparr>status = 500, body = ErrorBody ''Timeout waiting for image generation''\<rparr>"
    if "n < maxAttempts" "predictions_get rep pid n = Inr r" "\<not> truthy (res_error r)"
      "res_status r = ''succeeded''" "\<not> truthy (first_output (res_output r))"
  proof -
    have "pollLoop (predictions_get rep pid) 0 = Inr (first_output (res_output r))"
      using skip that pollLoop_succeeded [of n "predictions_get rep pid" r] by simp
    then show ?thesis using that(5) by (simp add: post)
  qed
  have 3: "POST rep req_json =
      \<lparr>status = 500, body = ErrorBody (''Replicate error: '' @ err)\<rparr>"
    if "n < maxAttempts" "predictions_get rep pid n = Inr r" "res_error r = Some err"
      "err \<noteq> []"
  proof -
    have "pollLoop (predictions_get rep pid) 0 = Inl (Error (''Replicate error: '' @ err))"
      using skip that pollLoop_error [of n "predictions_get rep pid" r err] by simp
    then show ?thesis by (simp add: post)
  qed
  have 4: "POST rep req_json =
      \<lparr>status = 500, body = ErrorBody ''Timeout waiting for image generation''\<rparr>"
    if "n = maxAttempts"
    using skip that by (simp add: post pollLoop_exhausted)
  show ?thesis using 1 2 3 4 by blast
qed

theorem edit_poll_outcomes_witness:
  "POST service_succeeds_on_fourth_poll (Inr request_body) =
     \<lparr>status = 200, body = ImageUrlBody ''https://replicate.delivery/out.png''\<rparr> \<and>
   POST service_succeeds_without_output (Inr request_body) =
     \<lparr>status = 500, body = ErrorBody ''Timeout waiting for image generation''\<rparr> \<and>
   POST service_succeeds_with_error (Inr request_body) =
     \<lparr>status = 500, body = ErrorBody ''Replicate error: partial''\<rparr> \<and>
   POST service_never_ends (Inr request_body) =
     \<lparr>status = 500, body = ErrorBody ''Timeout waiting for image generation''\<rparr>"
proof -
  have a: "POST service_succeeds_on_fourth_poll (Inr request_body) =
     \<lparr>status = 200, body = ImageUrlBody ''https://replicate.delivery/out.png''\<rparr>"
    using edit_poll_outcomes [where req_json = "Inr request_body" and b = request_body
        and rep = service_succeeds_on_fourth_poll and pid = "''p1''" and n = 3
        and r = "\<lparr>res_error = None, res_status = ''succeeded'',
               res_output = OArray [''https://replicate.delivery/out.png'']\<rparr>"
        and url = "''https://replicate.delivery/out.png''"]
    by (simp add: request_body_def service_succeeds_on_fourth_poll_def pending_def
        processing_def maxAttempts_def)
  have b: "POST service_succeeds_without_output (Inr request_body) =
     \<lparr>status = 500, body = ErrorBody ''Timeout waiting for image generation''\<rparr>"
    using edit_poll_outcomes [where req_json = "Inr request_body" and b = request_body
        and rep = service_succeeds_without_output and pid = "''p1''" and n = 0
        and r = "\<lparr>res_error = None, res_status = ''succeeded'', res_output = ONull\<rparr>"]
    by (simp add: request_body_def service_succeeds_without_output_def maxAttempts_def)
  have c: "POST service_succeeds_with_error (Inr request_body) =
     \<lparr>status = 500, body = ErrorBody ''Replicate error: partial''\<rparr>"
    using edit_poll_outcomes [where req_json = "Inr request_body" and b = request_body
        and rep = service_succeeds_with_error and pid = "''p1''" and n = 0
        and r = "\<lparr>res_error = Some ''partial'', res_status = ''succeeded'',
               res_output = OString ''https://replicate.delivery/out.png''\<rparr>"
        and err = "''partial''"]
    by (simp add: request_body_def service_succeeds_with_error_def maxAttempts_def)
  have d: "POST service_never_ends (Inr request_body) =
     \<lparr>status = 500, body = ErrorBody ''Timeout waiting for image generation''\<rparr>"
    using edit_poll_outcomes [where req_json = "Inr request_body" and b = request_body
        and rep = service_never_ends and pid = "''p1''" and n = maxAttempts]
    by (simp add: request_body_def service_never_ends_def pending_def processing_def)
  show ?thesis using a b c d by simp
qed

section \<open>The edit route and the fields \<^verbatim>\<open>width\<close> and \<^verbatim>\<open>height\<close>\<close>

text \<open>
  Claim C10. The answer of the edit route does not depend on the fields \<^verbatim>\<open>width\<close>
  and \<^verbatim>\<open>height\<close> of the request body: for every prediction service, two requests
  that agree on \<^verbatim>\<open>prompt\<close>, \<^verbatim>\<open>image\<close> and \<^verbatim>\<open>mask\<close>, and so differ at most in
  \<^verbatim>\<open>width\<close> and \<^verbatim>\<open>height\<close>, get the same response (the handler reads these three
  fields only, and what it sends to the service is built from them;
  \<^verbatim>\<open>getNearestValidSize\<close> is not part of it).
\<close>

theorem edit_ignores_width_height:
  assumes "body_prompt b = body_prompt c" and "body_image b = body_image c"
    and "body_mask b = body_mask c"
  shows "POST rep (Inr b) = POST rep (Inr c)"
  using assms by (simp add: POST_def POST_try_def)

theorem edit_ignores_width_height_witness:
  "body_prompt (request_body\<lparr>body_width := Some (Fin 1024), body_height := Some (Fin 576)\<rparr>) =
     body_prompt request_body \<and>
   body_width (request_body\<lparr>body_width := Some (Fin 1024), body_height := Some (Fin 576)\<rparr>) \<noteq>
     body_width request_body \<and>
   POST service_succeeds_on_fourth_poll
     (Inr (request_body\<lparr>body_width := Some (Fin 1024), body_height := Some (Fin 576)\<rparr>)) =
   POST service_succeeds_on_fourth_poll (Inr request_body)"
  using edit_ignores_width_height [where rep = service_succeeds_on_fourth_poll
      and b = "request_body\<lparr>body_width := Some (Fin 1024), body_height := Some (Fin 576)\<rparr>"
      and c = request_body]
  by (simp add: request_body_def)

end
